theory Spec2Isabelle
  imports Main
begin

section \<open>JavaScript values read by the photo client\<close>

text \<open>
  The service module \<^verbatim>\<open>src/services/google-photos.ts\<close> reads the body of a response as
  \<^verbatim>\<open>any\<close>. A value is therefore modelled untyped. A number is held as its decimal
  rendering, which is all the module can observe of it (its truth value and its text in a
  template literal); zero renders as \<open>''0''\<close>. An object is its table of own properties,
  read with first match.
\<close>

datatype jsval =
    JUndefined
  | JNull
  | JBool bool
  | JNum string
  | JStr string
  | JArr "jsval list"
  | JObj "(string \<times> jsval) list"

text \<open>
  Errors as values. \<open>Error m\<close> is \<^verbatim>\<open>new Error(m)\<close> made by the module itself,
  \<open>TypeError\<close> is raised by the language on a bad read or call, and \<open>Rejection x\<close> is
  a value an outside call (the identity provider, \<^verbatim>\<open>fetch\<close>, \<^verbatim>\<open>response.json()\<close>)
  rejected with.
\<close>

datatype exn = Error string | TypeError | Rejection string

text \<open>The truth value of \<^verbatim>\<open>!v\<close> and \<^verbatim>\<open>if (v)\<close>.\<close>

fun truthy :: "jsval \<Rightarrow> bool" where
  "truthy JUndefined = False"
| "truthy JNull = False"
| "truthy (JBool b) = b"
| "truthy (JNum r) = (r \<noteq> ''0'')"
| "truthy (JStr s) = (s \<noteq> [])"
| "truthy (JArr xs) = True"
| "truthy (JObj kvs) = True"

text \<open>
  The read \<^verbatim>\<open>v.k\<close>, for the property names the module uses (\<^verbatim>\<open>mediaItems\<close>,
  \<^verbatim>\<open>id\<close>, \<^verbatim>\<open>baseUrl\<close>, \<^verbatim>\<open>filename\<close>, \<^verbatim>\<open>mimeType\<close>), none of which a prototype
  defines: a read on \<^verbatim>\<open>null\<close> or \<^verbatim>\<open>undefined\<close> raises, a read on an object looks the
  name up, and any other value has no such property.
\<close>

fun get_prop :: "jsval \<Rightarrow> string \<Rightarrow> exn + jsval" where
  "get_prop JUndefined k = Inl TypeError"
| "get_prop JNull k = Inl TypeError"
| "get_prop (JObj kvs) k = Inr (case map_of kvs k of None \<Rightarrow> JUndefined | Some v \<Rightarrow> v)"
| "get_prop v k = Inr JUndefined"

text \<open>
  The text of \<^verbatim>\<open>${v}\<close> in a template literal. An array joins its elements with commas,
  \<^verbatim>\<open>null\<close> and \<^verbatim>\<open>undefined\<close> elements giving the empty text. A parsed object gives
  \<^verbatim>\<open>[object Object]\<close>, unless an own property hides \<^verbatim>\<open>toString\<close> with a value that is
  not callable, and then the conversion raises.
\<close>

fun to_string :: "jsval \<Rightarrow> exn + string"
  and join_elems :: "jsval list \<Rightarrow> exn + string" where
  "to_string JUndefined = Inr ''undefined''"
| "to_string JNull = Inr ''null''"
| "to_string (JBool b) = Inr (if b then ''true'' else ''false'')"
| "to_string (JNum r) = Inr r"
| "to_string (JStr s) = Inr s"
| "to_string (JArr xs) = join_elems xs"
| "to_string (JObj kvs) =
     (if map_of kvs ''toString'' = None then Inr ''[object Object]'' else Inl TypeError)"
| "join_elems [] = Inr []"
| "join_elems (x # xs) =
     (case (if x = JNull \<or> x = JUndefined then Inr [] else to_string x) of
        Inl e \<Rightarrow> Inl e
      | Inr s \<Rightarrow>
          (if xs = [] then Inr s
           else (case join_elems xs of Inl e \<Rightarrow> Inl e | Inr t \<Rightarrow> Inr (s @ '','' @ t))))"

text \<open>The text of a status code in a template literal.\<close>

fun show_nat :: "nat \<Rightarrow> string" where
  "show_nat n =
     (if n < 10 then [''0123456789'' ! n]
      else show_nat (n div 10) @ [''0123456789'' ! (n mod 10)])"

declare show_nat.simps [simp del]

section \<open>Requests, responses and the remote service\<close>

record request =
  url :: string
  http_method :: string
  headers :: "(string \<times> string) list"
  body :: "jsval option"

text \<open>
  A response as the module reads it: the status, the status text and what
  \<^verbatim>\<open>response.json()\<close> settles with (a rejection or the parsed body). \<^verbatim>\<open>response.ok\<close> is
  not a field of its own: by the Fetch standard it is true exactly for a status from 200
  to 299.
\<close>

record response =
  status :: nat
  statusText :: string
  json :: "string + jsval"

definition ok :: "response \<Rightarrow> bool" where
  "ok resp = (200 \<le> status resp \<and> status resp \<le> 299)"

text \<open>
  The remote photo service is not code of the repository. It is a parameter: a handler that
  takes a request and the remote state and gives what \<^verbatim>\<open>fetch\<close> settles with (a rejection
  or a response) and the remote state afterwards.
\<close>

type_synonym 'r server = "request \<Rightarrow> 'r \<Rightarrow> (string + response) \<times> 'r"

section \<open>Observable calls\<close>

text \<open>
  Every function of the model returns, with its result, the calls it made that leave the
  module, in order: the calls to the identity provider, the HTTP requests, the reads of a
  response body and the lines written to the console. Reading \<^verbatim>\<open>auth.currentUser\<close> and
  the clock is not a call in this sense.
\<close>

datatype logged = LogExn exn | LogVal jsval

datatype event =
    GetIdTokenResult bool
  | GetIdToken
  | ReauthenticateWithPopup string
  | Fetch request
  | ReadJson
  | ConsoleError string logged

fun is_fetch :: "event \<Rightarrow> bool" where
  "is_fetch (Fetch q) = True"
| "is_fetch e = False"

section \<open>The credential cache\<close>

text \<open>
  The two module variables \<^verbatim>\<open>cachedToken\<close> and \<^verbatim>\<open>tokenExpiry\<close>. Time is the value of
  \<^verbatim>\<open>Date.now()\<close>, milliseconds since the epoch.
\<close>

record cache =
  cachedToken :: "string option"
  tokenExpiry :: "nat option"

text \<open>
  What the identity provider and the clock answer during one call of
  \<^verbatim>\<open>getAccessToken\<close>: whether \<^verbatim>\<open>auth.currentUser\<close> is set, the clock at the cache check
  (line 28), what \<^verbatim>\<open>user.getIdTokenResult(true)\<close> settles with (a rejection, or the
  \<^verbatim>\<open>sign_in_provider\<close> claim when there is one), what \<^verbatim>\<open>user.getIdToken()\<close> settles
  with, what \<^verbatim>\<open>reauthenticateWithPopup\<close> settles with (a rejection, or the
  \<^verbatim>\<open>accessToken\<close> of the credential when there is one), and the clock when a token is
  stored (line 42 or 56).
\<close>

record env =
  currentUser :: bool
  now_check :: nat
  getIdTokenResult :: "string + string option"
  getIdToken :: "string + string"
  reauthenticateWithPopup :: "string + string option"
  now_store :: nat

text \<open>\<^verbatim>\<open>if (token)\<close> for a \<^verbatim>\<open>string | null\<close> (or \<^verbatim>\<open>string | undefined\<close>).\<close>

fun truthy_token :: "string option \<Rightarrow> bool" where
  "truthy_token None = False"
| "truthy_token (Some t) = (t \<noteq> [])"

text \<open>\<^verbatim>\<open>if (n)\<close> for a \<^verbatim>\<open>number | null\<close>.\<close>

fun truthy_number :: "nat option \<Rightarrow> bool" where
  "truthy_number None = False"
| "truthy_number (Some n) = (n \<noteq> 0)"

text \<open>Line 28: \<^verbatim>\<open>cachedToken && tokenExpiry && Date.now() < tokenExpiry\<close>.\<close>

definition cache_valid :: "env \<Rightarrow> cache \<Rightarrow> bool" where
  "cache_valid a c =
     (truthy_token (cachedToken c) \<and> truthy_number (tokenExpiry c)
      \<and> (case tokenExpiry c of None \<Rightarrow> False | Some e \<Rightarrow> now_check a < e))"

definition photos_scope :: string where
  "photos_scope = ''https://www.googleapis.com/auth/photoslibrary''"

text \<open>Lines 55 to 57 and 41 to 43: store the token for one hour and return it.\<close>

definition store_token :: "env \<Rightarrow> string \<Rightarrow> cache \<Rightarrow> cache" where
  "store_token a t c = c\<lparr>cachedToken := Some t, tokenExpiry := Some (now_store a + 3600000)\<rparr>"

text \<open>Lines 47 to 60: the interactive path, after the calls in \<open>tr\<close>.\<close>

definition reauth_path :: "env \<Rightarrow> cache \<Rightarrow> event list \<Rightarrow> (exn + string) \<times> cache \<times> event list" where
  "reauth_path a c tr =
     (case reauthenticateWithPopup a of
        Inl x \<Rightarrow> (Inl (Rejection x), c, tr @ [ReauthenticateWithPopup photos_scope])
      | Inr accessToken \<Rightarrow>
          (case accessToken of
             Some t \<Rightarrow>
               (if t \<noteq> [] then (Inr t, store_token a t c, tr @ [ReauthenticateWithPopup photos_scope])
                else (Inl (Error ''Failed to get access token''), c,
                      tr @ [ReauthenticateWithPopup photos_scope]))
           | None \<Rightarrow>
               (Inl (Error ''Failed to get access token''), c,
                tr @ [ReauthenticateWithPopup photos_scope])))"

text \<open>Lines 33 to 60: the body of the \<^verbatim>\<open>try\<close> block.\<close>

definition acquire :: "env \<Rightarrow> cache \<Rightarrow> (exn + string) \<times> cache \<times> event list" where
  "acquire a c =
     (case getIdTokenResult a of
        Inl x \<Rightarrow> (Inl (Rejection x), c, [GetIdTokenResult True])
      | Inr provider \<Rightarrow>
          (if provider = Some ''google.com'' then
             (case getIdToken a of
                Inl x \<Rightarrow> (Inl (Rejection x), c, [GetIdTokenResult True, GetIdToken])
              | Inr credential \<Rightarrow>
                  (if credential \<noteq> [] then
                     (Inr credential, store_token a credential c,
                      [GetIdTokenResult True, GetIdToken])
                   else reauth_path a c [GetIdTokenResult True, GetIdToken]))
           else reauth_path a c [GetIdTokenResult True]))"

text \<open>
  \<^verbatim>\<open>getAccessToken\<close> (lines 23 to 65). The result is \<open>Inr None\<close> for \<^verbatim>\<open>null\<close>,
  \<open>Inr (Some t)\<close> for a token and \<open>Inl e\<close> for a throw; with it come the cache afterwards
  and the outside calls made, in order.
\<close>

definition getAccessToken :: "env \<Rightarrow> cache \<Rightarrow> (exn + string option) \<times> cache \<times> event list" where
  "getAccessToken a c =
     (if \<not> currentUser a then (Inr None, c, [])
      else if cache_valid a c then (Inr (cachedToken c), c, [])
      else
        (case acquire a c of
           (Inr t, c', tr) \<Rightarrow> (Inr (Some t), c', tr)
         | (Inl e, c', tr) \<Rightarrow>
             (Inl (Error ''Failed to get access token''), c',
              tr @ [ConsoleError ''Error getting access token:'' (LogExn e)])))"

section \<open>Listing media items\<close>

text \<open>The interface \<^verbatim>\<open>MediaItem\<close>. The fields copied from the response are untyped.\<close>

record media_item =
  id_item :: jsval
  baseUrl :: string
  filename :: jsval
  mimeType :: jsval

text \<open>Lines 100 to 105: the callback of \<^verbatim>\<open>map\<close>.\<close>

definition to_media_item :: "jsval \<Rightarrow> exn + media_item" where
  "to_media_item item =
     (case get_prop item ''id'' of
        Inl e \<Rightarrow> Inl e
      | Inr i \<Rightarrow>
          (case get_prop item ''baseUrl'' of
             Inl e \<Rightarrow> Inl e
           | Inr b \<Rightarrow>
               (case to_string b of
                  Inl e \<Rightarrow> Inl e
                | Inr s \<Rightarrow>
                    (case get_prop item ''filename'' of
                       Inl e \<Rightarrow> Inl e
                     | Inr f \<Rightarrow>
                         (case get_prop item ''mimeType'' of
                            Inl e \<Rightarrow> Inl e
                          | Inr m \<Rightarrow>
                              Inr \<lparr>id_item = i, baseUrl = s @ ''=w1024-h1024'',
                                   filename = f, mimeType = m\<rparr>)))))"

text \<open>\<^verbatim>\<open>Array.prototype.map\<close> with that callback: in order, stopping at the first throw.\<close>

fun map_items :: "jsval list \<Rightarrow> exn + media_item list" where
  "map_items [] = Inr []"
| "map_items (x # xs) =
     (case to_media_item x of
        Inl e \<Rightarrow> Inl e
      | Inr m \<Rightarrow> (case map_items xs of Inl e \<Rightarrow> Inl e | Inr ms \<Rightarrow> Inr (m # ms)))"

text \<open>
  Lines 96 to 105: an absent or falsy \<^verbatim>\<open>mediaItems\<close> gives the empty list; a truthy one
  that is no array has no \<^verbatim>\<open>map\<close> to call.
\<close>

definition read_items :: "jsval \<Rightarrow> exn + media_item list" where
  "read_items data =
     (case get_prop data ''mediaItems'' of
        Inl e \<Rightarrow> Inl e
      | Inr mi \<Rightarrow>
          (if \<not> truthy mi then Inr []
           else (case mi of JArr items \<Rightarrow> map_items items | _ \<Rightarrow> Inl TypeError)))"

text \<open>The headers every request carries.\<close>

definition json_headers :: "string \<Rightarrow> (string \<times> string) list" where
  "json_headers token =
     [(''Authorization'', ''Bearer '' @ token), (''Content-Type'', ''application/json'')]"

text \<open>The request of \<^verbatim>\<open>listMediaItems\<close> (lines 76 to 81); no method given, so a GET.\<close>

definition list_request :: "string \<Rightarrow> request" where
  "list_request token =
     \<lparr>url = ''https://photoslibrary.googleapis.com/v1/mediaItems?pageSize=100'',
      http_method = ''GET'', headers = json_headers token, body = None\<rparr>"

text \<open>The value logged as \<^verbatim>\<open>errorData\<close>: \<^verbatim>\<open>await response.json().catch(() => ({}))\<close>.\<close>

definition error_data :: "response \<Rightarrow> jsval" where
  "error_data resp = (case json resp of Inl x \<Rightarrow> JObj [] | Inr d \<Rightarrow> d)"

text \<open>Lines 76 to 105: the body of the \<^verbatim>\<open>try\<close> block of \<^verbatim>\<open>listMediaItems\<close>.\<close>

definition list_try ::
  "'r server \<Rightarrow> string \<Rightarrow> cache \<Rightarrow> 'r \<Rightarrow> (exn + media_item list) \<times> cache \<times> 'r \<times> event list" where
  "list_try srv token c r =
     (case srv (list_request token) r of
        (Inl x, r') \<Rightarrow> (Inl (Rejection x), c, r', [Fetch (list_request token)])
      | (Inr resp, r') \<Rightarrow>
          (if \<not> ok resp then
             (if status resp = 401 then
                (Inl (Error ''Authentication expired, please try again''),
                 c\<lparr>cachedToken := None, tokenExpiry := None\<rparr>, r',
                 [Fetch (list_request token)])
              else
                (Inl (Error (''Failed to fetch media items: '' @ show_nat (status resp)
                             @ '' '' @ statusText resp)),
                 c, r',
                 [Fetch (list_request token), ReadJson,
                  ConsoleError ''Google Photos API Error:'' (LogVal (error_data resp))]))
           else
             (case json resp of
                Inl x \<Rightarrow> (Inl (Rejection x), c, r', [Fetch (list_request token), ReadJson])
              | Inr data \<Rightarrow>
                  (case read_items data of
                     Inl e \<Rightarrow> (Inl e, c, r', [Fetch (list_request token), ReadJson])
                   | Inr ms \<Rightarrow> (Inr ms, c, r', [Fetch (list_request token), ReadJson])))))"

text \<open>
  \<^verbatim>\<open>listMediaItems\<close> (lines 71 to 110): the token first, outside the \<^verbatim>\<open>try\<close>; the
  \<^verbatim>\<open>catch\<close> logs the error and throws it again.
\<close>

definition listMediaItems ::
  "'r server \<Rightarrow> env \<Rightarrow> cache \<Rightarrow> 'r \<Rightarrow> (exn + media_item list) \<times> cache \<times> 'r \<times> event list" where
  "listMediaItems srv a c r =
     (case getAccessToken a c of
        (Inl e, c1, tr) \<Rightarrow> (Inl e, c1, r, tr)
      | (Inr token, c1, tr) \<Rightarrow>
          (case token of
             None \<Rightarrow> (Inl (Error ''Not authenticated''), c1, r, tr)
           | Some t \<Rightarrow>
               (if t = [] then (Inl (Error ''Not authenticated''), c1, r, tr)
                else
                  (case list_try srv t c1 r of
                     (Inr ms, c2, r', tr') \<Rightarrow> (Inr ms, c2, r', tr @ tr')
                   | (Inl e, c2, r', tr') \<Rightarrow>
                       (Inl e, c2, r',
                        tr @ tr' @ [ConsoleError ''Error fetching media items:'' (LogExn e)])))))"

section \<open>Archive, favorite and delete\<close>

definition batchModify_url :: "string \<Rightarrow> string" where
  "batchModify_url mediaItemId =
     ''https://photoslibrary.googleapis.com/v1/mediaItems/'' @ mediaItemId @ '':batchModify''"

text \<open>
  The request of \<^verbatim>\<open>archiveMediaItem\<close> (lines 122 to 133). The body is the value handed to
  \<^verbatim>\<open>JSON.stringify\<close>.
\<close>

definition archive_request :: "string \<Rightarrow> string \<Rightarrow> request" where
  "archive_request mediaItemId token =
     \<lparr>url = batchModify_url mediaItemId, http_method = ''POST'', headers = json_headers token,
      body = Some (JObj [(''mediaItemIds'', JArr [JStr mediaItemId]),
                         (''updateMask'', JStr ''archive''),
                         (''archive'', JBool True)])\<rparr>"

text \<open>The request of \<^verbatim>\<open>favoriteMediaItem\<close> (lines 156 to 167).\<close>

definition favorite_request :: "string \<Rightarrow> string \<Rightarrow> request" where
  "favorite_request mediaItemId token =
     \<lparr>url = batchModify_url mediaItemId, http_method = ''POST'', headers = json_headers token,
      body = Some (JObj [(''mediaItemIds'', JArr [JStr mediaItemId]),
                         (''updateMask'', JStr ''favorite''),
                         (''favorite'', JBool True)])\<rparr>"

text \<open>The request of \<^verbatim>\<open>deleteMediaItem\<close> (lines 190 to 196).\<close>

definition delete_request :: "string \<Rightarrow> string \<Rightarrow> request" where
  "delete_request mediaItemId token =
     \<lparr>url = ''https://photoslibrary.googleapis.com/v1/mediaItems/'' @ mediaItemId,
      http_method = ''DELETE'', headers = json_headers token, body = None\<rparr>"

text \<open>
  The three functions have one shape and differ in the request, the label logged by the
  \<^verbatim>\<open>catch\<close> and the message thrown. \<open>action_try\<close> is the body of the \<^verbatim>\<open>try\<close> block
  (lines 122 to 139, 156 to 173, 190 to 202).
\<close>

definition action_try ::
  "'r server \<Rightarrow> request \<Rightarrow> string \<Rightarrow> 'r \<Rightarrow> (exn + unit) \<times> 'r \<times> event list" where
  "action_try srv q msg r =
     (case srv q r of
        (Inl x, r') \<Rightarrow> (Inl (Rejection x), r', [Fetch q])
      | (Inr resp, r') \<Rightarrow>
          (if \<not> ok resp then
             (Inl (Error msg), r',
              [Fetch q, ReadJson,
               ConsoleError ''Google Photos API Error:'' (LogVal (error_data resp))])
           else (Inr (), r', [Fetch q])))"

text \<open>
  The whole function: the token first, outside the \<^verbatim>\<open>try\<close>; the \<^verbatim>\<open>catch\<close> logs the
  error under \<open>label\<close> and throws \<^verbatim>\<open>new Error(msg)\<close>.
\<close>

definition action ::
  "'r server \<Rightarrow> env \<Rightarrow> (string \<Rightarrow> request) \<Rightarrow> string \<Rightarrow> string \<Rightarrow> cache \<Rightarrow> 'r
     \<Rightarrow> (exn + unit) \<times> cache \<times> 'r \<times> event list" where
  "action srv a mk label msg c r =
     (case getAccessToken a c of
        (Inl e, c1, tr) \<Rightarrow> (Inl e, c1, r, tr)
      | (Inr token, c1, tr) \<Rightarrow>
          (case token of
             None \<Rightarrow> (Inl (Error ''Not authenticated''), c1, r, tr)
           | Some t \<Rightarrow>
               (if t = [] then (Inl (Error ''Not authenticated''), c1, r, tr)
                else
                  (case action_try srv (mk t) msg r of
                     (Inr u, r', tr') \<Rightarrow> (Inr u, c1, r', tr @ tr')
                   | (Inl e, r', tr') \<Rightarrow>
                       (Inl (Error msg), c1, r',
                        tr @ tr' @ [ConsoleError label (LogExn e)])))))"

definition archiveMediaItem ::
  "'r server \<Rightarrow> env \<Rightarrow> string \<Rightarrow> cache \<Rightarrow> 'r \<Rightarrow> (exn + unit) \<times> cache \<times> 'r \<times> event list" where
  "archiveMediaItem srv a mediaItemId =
     action srv a (archive_request mediaItemId)
       ''Error archiving media item:'' ''Failed to archive media item''"

definition favoriteMediaItem ::
  "'r server \<Rightarrow> env \<Rightarrow> string \<Rightarrow> cache \<Rightarrow> 'r \<Rightarrow> (exn + unit) \<times> cache \<times> 'r \<times> event list" where
  "favoriteMediaItem srv a mediaItemId =
     action srv a (favorite_request mediaItemId)
       ''Error favoriting media item:'' ''Failed to favorite media item''"

definition deleteMediaItem ::
  "'r server \<Rightarrow> env \<Rightarrow> string \<Rightarrow> cache \<Rightarrow> 'r \<Rightarrow> (exn + unit) \<times> cache \<times> 'r \<times> event list" where
  "deleteMediaItem srv a mediaItemId =
     action srv a (delete_request mediaItemId)
       ''Error deleting media item:'' ''Failed to delete media item''"

section \<open>The remote service as the spec describes it\<close>

text \<open>
  Modelled from the spec: what a request asks the remote to set. The remote photo service is
  not code of the repository; the spec (4.2, 6 and the glossary) describes its
  \<^verbatim>\<open>batchModify\<close> endpoint as a POST whose body names the items in
  \<^verbatim>\<open>mediaItemIds\<close>, one field in \<^verbatim>\<open>updateMask\<close> and that field set to \<^verbatim>\<open>true\<close>, and
  which sets that flag on those items. \<open>batch_flags\<close> reads from a request the flags it
  asks to set, each a pair of an item id and a field name; a request of another shape asks
  for none.
\<close>

definition batch_flags :: "request \<Rightarrow> (string \<times> string) list" where
  "batch_flags q =
     (if http_method q \<noteq> ''POST'' then []
      else
        (case body q of
           None \<Rightarrow> []
         | Some b \<Rightarrow>
             (case (get_prop b ''mediaItemIds'', get_prop b ''updateMask'') of
                (Inr (JArr ids), Inr (JStr field)) \<Rightarrow>
                  (if get_prop b field = Inr (JBool True) then [(i, field). JStr i \<leftarrow> ids]
                   else [])
              | _ \<Rightarrow> [])))"

text \<open>
  Modelled from the spec: the remote's handling of a request. The remote state is the set of
  the flags that are set. A \<^verbatim>\<open>batchModify\<close> request is answered with 200 and sets the
  flags it asks for, so that setting a flag that is already set changes nothing (spec 4.2:
  repeating the call with the same id and already-set flag is a no-op remotely); any other
  request is answered with 400 and changes nothing.
\<close>

definition remote_batchModify :: "(string \<times> string) set server" where
  "remote_batchModify q r =
     (if batch_flags q = []
      then (Inr \<lparr>status = 400, statusText = ''Bad Request'', json = Inr (JObj [])\<rparr>, r)
      else (Inr \<lparr>status = 200, statusText = ''OK'', json = Inr (JObj [])\<rparr>,
            set (batch_flags q) \<union> r))"

section \<open>Example sessions, caches and remotes\<close>

text \<open>
  Concrete inputs at which the theorems below are instantiated. They are not part of the
  client.
\<close>

text \<open>Caches: one holding a token good until 5000, one holding nothing.\<close>

definition cache_warm :: cache where
  "cache_warm = \<lparr>cachedToken = Some ''tok'', tokenExpiry = Some 5000\<rparr>"

definition cache_stale :: cache where
  "cache_stale = \<lparr>cachedToken = Some ''revoked'', tokenExpiry = Some 5000\<rparr>"

definition cache_empty :: cache where
  "cache_empty = \<lparr>cachedToken = None, tokenExpiry = None\<rparr>"

text \<open>
  Sessions: a Google sign-in at time 1000; no session; a session whose silent retrieval
  rejects; a session signed in with a password.
\<close>

definition env_signed_in :: env where
  "env_signed_in =
     \<lparr>currentUser = True, now_check = 1000,
      getIdTokenResult = Inr (Some ''google.com''), getIdToken = Inr ''id-token'',
      reauthenticateWithPopup = Inr (Some ''access-token''), now_store = 1200\<rparr>"

definition env_signed_out :: env where
  "env_signed_out = env_signed_in\<lparr>currentUser := False\<rparr>"

definition env_silent_rejected :: env where
  "env_silent_rejected = env_signed_in\<lparr>getIdTokenResult := Inl ''auth/network-request-failed''\<rparr>"

definition env_password :: env where
  "env_password = env_signed_in\<lparr>getIdTokenResult := Inr (Some ''password'')\<rparr>"

text \<open>
  Remotes without a state: one that answers 200 with an empty object, one that answers 401,
  one that cannot be reached, one that answers with a page of two items and one that answers
  with an empty page.
\<close>

definition srv_success :: "unit server" where
  "srv_success q r = (Inr \<lparr>status = 200, statusText = ''OK'', json = Inr (JObj [])\<rparr>, r)"

definition srv_401 :: "unit server" where
  "srv_401 q r = (Inr \<lparr>status = 401, statusText = ''Unauthorized'', json = Inr (JObj [])\<rparr>, r)"

definition srv_offline :: "unit server" where
  "srv_offline q r = (Inl ''Failed to fetch'', r)"

definition page_two_items :: jsval where
  "page_two_items =
     JObj [(''mediaItems'',
            JArr [JObj [(''id'', JStr ''a''), (''baseUrl'', JStr ''https://lh3.example/a''),
                        (''filename'', JStr ''a.jpg''), (''mimeType'', JStr ''image/jpeg'')],
                  JObj [(''id'', JStr ''b''), (''baseUrl'', JStr ''https://lh3.example/b'')]])]"

definition srv_page :: "unit server" where
  "srv_page q r = (Inr \<lparr>status = 200, statusText = ''OK'', json = Inr page_two_items\<rparr>, r)"

definition srv_no_items :: "unit server" where
  "srv_no_items q r =
     (Inr \<lparr>status = 200, statusText = ''OK'', json = Inr (JObj [(''mediaItems'', JArr [])])\<rparr>, r)"

text \<open>
  Remotes with a state, the list of the flags set so far, each a pair of an item id and a
  field name. \<open>requested_flags\<close> reads from a request body the flags it asks for.
  \<open>srv_flags\<close> sets them and answers 200 when the bearer token is \<open>''tok''\<close>, and
  answers 401 and sets nothing otherwise. \<open>srv_lost_reply\<close> sets them, and its reply
  never arrives: \<^verbatim>\<open>fetch\<close> rejects.
\<close>

definition requested_flags :: "request \<Rightarrow> (string \<times> string) list" where
  "requested_flags q =
     (case body q of
        None \<Rightarrow> []
      | Some b \<Rightarrow>
          (case (get_prop b ''mediaItemIds'', get_prop b ''updateMask'') of
             (Inr (JArr ids), Inr (JStr field)) \<Rightarrow> [(i, field). JStr i \<leftarrow> ids]
           | _ \<Rightarrow> []))"

definition srv_flags :: "(string \<times> string) list server" where
  "srv_flags q r =
     (if map_of (headers q) ''Authorization'' = Some ''Bearer tok''
      then (Inr \<lparr>status = 200, statusText = ''OK'', json = Inr (JObj [])\<rparr>, requested_flags q @ r)
      else (Inr \<lparr>status = 401, statusText = ''Unauthorized'', json = Inr (JObj [])\<rparr>, r))"

definition srv_lost_reply :: "(string \<times> string) list server" where
  "srv_lost_reply q r = (Inl ''Failed to fetch'', requested_flags q @ r)"

section \<open>Facts about the credential cache\<close>

text \<open>
  What a call of \<^verbatim>\<open>getAccessToken\<close> can give: a token returned is never empty, no HTTP
  request is made, and on a cache miss the silent retrieval comes first and a token returned
  has just been stored.
\<close>

lemma getAccessToken_signed_out:
  "\<not> currentUser a \<Longrightarrow> getAccessToken a c = (Inr None, c, [])"
  by (simp add: getAccessToken_def)

lemma reauth_path_cases:
  "reauth_path a c tr = (res, c', tr') \<Longrightarrow>
     tr' = tr @ [ReauthenticateWithPopup photos_scope] \<and>
     ((\<exists>t. res = Inr t \<and> t \<noteq> [] \<and> reauthenticateWithPopup a = Inr (Some t) \<and> c' = store_token a t c)
      \<or> ((\<exists>e. res = Inl e) \<and> c' = c))"
  by (auto simp: reauth_path_def split: sum.splits option.splits if_splits)

lemma acquire_cases:
  "acquire a c = (res, c', tr) \<Longrightarrow>
     (\<exists>tr0. tr = GetIdTokenResult True # tr0 \<and> filter is_fetch tr = []) \<and>
     ((\<exists>t. res = Inr t \<and> t \<noteq> [] \<and> c' = store_token a t c
           \<and> (getIdToken a = Inr t \<or> reauthenticateWithPopup a = Inr (Some t)))
      \<or> ((\<exists>e. res = Inl e) \<and> c' = c))"
  by (auto simp: acquire_def split: sum.splits if_splits dest!: reauth_path_cases)

lemma getAccessToken_token_nonempty:
  "getAccessToken a c = (Inr (Some t), c', tr) \<Longrightarrow> t \<noteq> []"
  by (auto simp: getAccessToken_def cache_valid_def split: if_splits prod.splits sum.splits dest!: acquire_cases)

lemma getAccessToken_no_fetch:
  "getAccessToken a c = (res, c', tr) \<Longrightarrow> filter is_fetch tr = []"
  by (auto simp: getAccessToken_def split: if_splits prod.splits sum.splits dest!: acquire_cases)

lemma getAccessToken_miss:
  assumes "currentUser a" and "\<not> cache_valid a c"
  shows "\<exists>tr'. snd (snd (getAccessToken a c)) = GetIdTokenResult True # tr'"
    and "fst (getAccessToken a c) = Inr (Some t) \<Longrightarrow>
           (getIdToken a = Inr t \<or> reauthenticateWithPopup a = Inr (Some t))
           \<and> fst (snd (getAccessToken a c)) = store_token a t c"
  using assms
  by (auto simp: getAccessToken_def split: prod.splits sum.splits dest!: acquire_cases)

lemma cache_valid_empty [simp]: "\<not> cache_valid a \<lparr>cachedToken = None, tokenExpiry = None\<rparr>"
  by (simp add: cache_valid_def)

lemma getAccessToken_warm:
  "getAccessToken env_signed_in cache_warm = (Inr (Some ''tok''), cache_warm, [])"
  by (simp add: getAccessToken_def cache_valid_def env_signed_in_def cache_warm_def)

lemma getAccessToken_silent_rejected:
  "getAccessToken env_silent_rejected cache_empty =
     (Inl (Error ''Failed to get access token''), cache_empty,
      [GetIdTokenResult True,
       ConsoleError ''Error getting access token:''
         (LogExn (Rejection ''auth/network-request-failed''))])"
  by (simp add: getAccessToken_def acquire_def cache_valid_def env_silent_rejected_def
      env_signed_in_def cache_empty_def)

lemma acquire_fallback:
  "getIdTokenResult a = Inr p \<Longrightarrow> p \<noteq> Some ''google.com'' \<Longrightarrow>
     ReauthenticateWithPopup photos_scope \<in> set (snd (snd (acquire a c)))"
  "getIdTokenResult a = Inr (Some ''google.com'') \<Longrightarrow> getIdToken a = Inr [] \<Longrightarrow>
     ReauthenticateWithPopup photos_scope \<in> set (snd (snd (acquire a c)))"
  by (auto simp: acquire_def reauth_path_def split: sum.splits option.splits)

lemma getAccessToken_silent_path:
  assumes "currentUser a" and "\<not> cache_valid a c"
    and "getIdTokenResult a = Inr (Some ''google.com'')"
    and "getIdToken a = Inr t" and "t \<noteq> []"
  shows "getAccessToken a c =
           (Inr (Some t), \<lparr>cachedToken = Some t, tokenExpiry = Some (now_store a + 3600000)\<rparr>,
            [GetIdTokenResult True, GetIdToken])"
  using assms by (simp add: getAccessToken_def acquire_def store_token_def)

lemma getAccessToken_popup_path:
  assumes "currentUser a" and "\<not> cache_valid a c"
    and "reauthenticateWithPopup a = Inr (Some t)" and "t \<noteq> []"
  shows "getIdTokenResult a = Inr p \<Longrightarrow> p \<noteq> Some ''google.com'' \<Longrightarrow>
           getAccessToken a c =
             (Inr (Some t), \<lparr>cachedToken = Some t, tokenExpiry = Some (now_store a + 3600000)\<rparr>,
              [GetIdTokenResult True, ReauthenticateWithPopup photos_scope])"
    and "getIdTokenResult a = Inr (Some ''google.com'') \<Longrightarrow> getIdToken a = Inr [] \<Longrightarrow>
           getAccessToken a c =
             (Inr (Some t), \<lparr>cachedToken = Some t, tokenExpiry = Some (now_store a + 3600000)\<rparr>,
              [GetIdTokenResult True, GetIdToken, ReauthenticateWithPopup photos_scope])"
  using assms by (simp_all add: getAccessToken_def acquire_def reauth_path_def store_token_def)

section \<open>Facts about the operations\<close>

text \<open>
  The outcome of \<^verbatim>\<open>listMediaItems\<close> on a 401 and on a page, the HTTP requests each
  operation makes, and what the mapping of the items keeps.
\<close>

lemma list_try_401:
  "srv (list_request t) r = (Inr resp, r1) \<Longrightarrow> status resp = 401 \<Longrightarrow>
   list_try srv t c1 r =
     (Inl (Error ''Authentication expired, please try again''),
      c1\<lparr>cachedToken := None, tokenExpiry := None\<rparr>, r1, [Fetch (list_request t)])"
  by (simp add: list_try_def ok_def)

lemma listMediaItems_401:
  assumes "getAccessToken a c = (Inr (Some t), c1, tr)"
    and "srv (list_request t) r = (Inr resp, r1)"
    and "status resp = 401"
  shows "listMediaItems srv a c r =
     (Inl (Error ''Authentication expired, please try again''),
      \<lparr>cachedToken = None, tokenExpiry = None\<rparr>, r1,
      tr @ [Fetch (list_request t),
            ConsoleError ''Error fetching media items:''
              (LogExn (Error ''Authentication expired, please try again''))])"
  using assms getAccessToken_token_nonempty [OF assms(1)]
  by (simp add: listMediaItems_def list_try_401)

lemma action_token_failure:
  "getAccessToken a c = (Inl e, c1, tr) \<Longrightarrow> action srv a mk label msg c r = (Inl e, c1, r, tr)"
  by (simp add: action_def)

lemma action_failure_message:
  "getAccessToken a c = (Inr (Some t), c1, tr) \<Longrightarrow>
   fst (action srv a mk label msg c r) = Inl e \<Longrightarrow> e = Error msg"
  by (auto simp: action_def split: if_splits prod.splits sum.splits dest: getAccessToken_token_nonempty)

lemma action_try_fetches: "filter is_fetch (snd (snd (action_try srv q msg r))) = [Fetch q]"
  by (simp add: action_try_def split: prod.splits sum.splits)

lemma list_try_fetches:
  "filter is_fetch (snd (snd (snd (list_try srv t c r)))) = [Fetch (list_request t)]"
  by (simp add: list_try_def split: prod.splits sum.splits)

lemma action_fetches:
  "filter is_fetch (snd (snd (snd (action srv a mk label msg c r)))) = [] \<or>
   (\<exists>t. filter is_fetch (snd (snd (snd (action srv a mk label msg c r)))) = [Fetch (mk t)])"
proof (cases "getAccessToken a c")
  case (fields res c1 tr)
  note nf = getAccessToken_no_fetch [OF fields]
  show ?thesis
  proof (cases res)
    case (Inl e)
    with fields nf show ?thesis by (simp add: action_def)
  next
    case (Inr token)
    show ?thesis
    proof (cases "truthy_token token")
      case False
      with fields Inr nf show ?thesis
        by (cases token) (simp_all add: action_def)
    next
      case True
      then obtain t where t: "token = Some t" "t \<noteq> []"
        by (cases token) simp_all
      have "filter is_fetch (snd (snd (snd (action srv a mk label msg c r)))) = [Fetch (mk t)]"
        using fields Inr t nf action_try_fetches [of srv "mk t" msg r]
        by (auto simp: action_def split: prod.splits sum.splits)
      then show ?thesis by blast
    qed
  qed
qed

lemma list_fetches:
  "length (filter is_fetch (snd (snd (snd (listMediaItems srv a c r))))) \<le> 1"
proof (cases "getAccessToken a c")
  case (fields res c1 tr)
  note nf = getAccessToken_no_fetch [OF fields]
  show ?thesis
  proof (cases res)
    case (Inl e)
    with fields nf show ?thesis by (simp add: listMediaItems_def)
  next
    case (Inr token)
    show ?thesis
    proof (cases token)
      case None
      with fields Inr nf show ?thesis by (simp add: listMediaItems_def)
    next
      case (Some t)
      show ?thesis
        using fields Inr Some nf list_try_fetches [of srv t c1 r]
        by (auto simp: listMediaItems_def split: prod.splits sum.splits)
    qed
  qed
qed

lemma to_media_item_fields:
  "to_media_item x = Inr m \<Longrightarrow>
     get_prop x ''id'' = Inr (id_item m)
     \<and> get_prop x ''filename'' = Inr (filename m)
     \<and> get_prop x ''mimeType'' = Inr (mimeType m)
     \<and> (\<exists>b s. get_prop x ''baseUrl'' = Inr b \<and> to_string b = Inr s
               \<and> baseUrl m = s @ ''=w1024-h1024'')"
  by (auto simp: to_media_item_def split: sum.splits)

lemma map_items_length: "map_items xs = Inr ms \<Longrightarrow> length ms = length xs"
  by (induction xs arbitrary: ms) (auto split: sum.splits)

lemma map_items_nth:
  "map_items xs = Inr ms \<Longrightarrow> i < length xs \<Longrightarrow> to_media_item (xs ! i) = Inr (ms ! i)"
proof (induction xs arbitrary: ms i)
  case Nil
  then show ?case by simp
next
  case (Cons x xs)
  from Cons.prems(1) obtain m ms' where m: "to_media_item x = Inr m"
    and ms': "map_items xs = Inr ms'" and ms: "ms = m # ms'"
    by (auto split: sum.splits)
  show ?case
  proof (cases i)
    case 0
    with m ms show ?thesis by simp
  next
    case (Suc j)
    with Cons.prems(2) have "j < length xs" by simp
    from Cons.IH [OF ms' this] Suc ms show ?thesis by simp
  qed
qed

lemma map_items_suffix:
  "map_items xs = Inr ms \<Longrightarrow> m \<in> set ms \<Longrightarrow> \<exists>s. baseUrl m = s @ ''=w1024-h1024''"
proof -
  assume xs: "map_items xs = Inr ms" and "m \<in> set ms"
  then obtain i where i: "i < length ms" "ms ! i = m"
    by (auto simp: in_set_conv_nth)
  with map_items_length [OF xs] have "to_media_item (xs ! i) = Inr m"
    using map_items_nth [OF xs, of i] by simp
  from to_media_item_fields [OF this] show ?thesis by blast
qed

lemma read_items_suffix:
  "read_items data = Inr ms \<Longrightarrow> m \<in> set ms \<Longrightarrow> \<exists>s. baseUrl m = s @ ''=w1024-h1024''"
  by (auto simp: read_items_def split: sum.splits if_splits jsval.splits dest: map_items_suffix)

lemma read_items_array:
  "get_prop data ''mediaItems'' = Inr (JArr items) \<Longrightarrow> read_items data = map_items items"
  by (simp add: read_items_def)

lemma listMediaItems_page:
  assumes "getAccessToken a c = (Inr (Some t), c1, tr)"
    and "srv (list_request t) r = (Inr resp, r1)"
    and "ok resp"
    and "json resp = Inr data"
  shows "fst (listMediaItems srv a c r) = read_items data"
    and "filter is_fetch (snd (snd (snd (listMediaItems srv a c r)))) = [Fetch (list_request t)]"
  using assms getAccessToken_token_nonempty [OF assms(1)] getAccessToken_no_fetch [OF assms(1)]
  by (auto simp: listMediaItems_def list_try_def split: sum.splits)

lemma listMediaItems_success:
  assumes "getAccessToken a c = (Inr (Some t), c1, tr)"
    and "srv (list_request t) r = (Inr resp, r1)"
    and "fst (listMediaItems srv a c r) = Inr ms"
  shows "ok resp \<and> (\<exists>data. json resp = Inr data \<and> read_items data = Inr ms)"
  using assms getAccessToken_token_nonempty [OF assms(1)]
  by (auto simp: listMediaItems_def list_try_def split: sum.splits if_splits)

lemma action_failure_remote:
  assumes quiet: "\<And>q s x s'. srv q s = (x, s') \<Longrightarrow> (\<And>resp. x = Inr resp \<Longrightarrow> \<not> ok resp) \<Longrightarrow> s' = s"
    and fail: "fst (action srv a mk label msg c r) = Inl e"
  shows "fst (snd (snd (action srv a mk label msg c r))) = r"
proof (cases "getAccessToken a c")
  case (fields res c1 tr)
  show ?thesis
  proof (cases res)
    case (Inl x)
    with fields show ?thesis by (simp add: action_def)
  next
    case (Inr token)
    show ?thesis
    proof (cases "truthy_token token")
      case False
      with fields Inr show ?thesis by (cases token) (simp_all add: action_def)
    next
      case True
      then obtain t where t: "token = Some t" "t \<noteq> []"
        by (cases token) simp_all
      obtain x s' where srv: "srv (mk t) r = (x, s')"
        by (cases "srv (mk t) r") auto
      show ?thesis
      proof (cases "\<exists>resp. x = Inr resp \<and> ok resp")
        case True
        with fields Inr t srv fail show ?thesis
          by (auto simp: action_def action_try_def)
      next
        case False
        then have "s' = r" using quiet [OF srv] by blast
        with fields Inr t srv show ?thesis
          by (auto simp: action_def action_try_def split: sum.splits)
      qed
    qed
  qed
qed

lemma action_outcome:
  assumes "getAccessToken a c = (Inr (Some t), c1, tr)"
    and "srv (mk t) r = (x, r1)"
  shows "fst (action srv a mk label msg c r) =
           (case x of
              Inl rej \<Rightarrow> Inl (Error msg)
            | Inr resp \<Rightarrow>
                if 200 \<le> status resp \<and> status resp \<le> 299 then Inr () else Inl (Error msg))"
  using assms getAccessToken_token_nonempty [OF assms(1)]
  by (auto simp: action_def action_try_def ok_def split: sum.splits)

lemma listMediaItems_rejections:
  assumes "getAccessToken a c = (Inr (Some t), c1, tr)"
  shows "srv (list_request t) r = (Inl x, r1) \<Longrightarrow>
           fst (listMediaItems srv a c r) = Inl (Rejection x)"
    and "srv (list_request t) r = (Inr resp, r1) \<Longrightarrow> 200 \<le> status resp \<Longrightarrow>
           status resp \<le> 299 \<Longrightarrow> json resp = Inl x \<Longrightarrow>
           fst (listMediaItems srv a c r) = Inl (Rejection x)"
  using assms getAccessToken_token_nonempty [OF assms]
  by (auto simp: listMediaItems_def list_try_def ok_def)

lemma to_media_item_object:
  "map_of kvs ''baseUrl'' = Some (JStr u) \<Longrightarrow>
   to_media_item (JObj kvs) =
     Inr \<lparr>id_item = (case map_of kvs ''id'' of None \<Rightarrow> JUndefined | Some v \<Rightarrow> v),
          baseUrl = u @ ''=w1024-h1024'',
          filename = (case map_of kvs ''filename'' of None \<Rightarrow> JUndefined | Some v \<Rightarrow> v),
          mimeType = (case map_of kvs ''mimeType'' of None \<Rightarrow> JUndefined | Some v \<Rightarrow> v)\<rparr>"
  by (simp add: to_media_item_def)

lemma map_items_objects:
  "\<forall>kvs \<in> set objs. \<exists>u. map_of kvs ''baseUrl'' = Some (JStr u) \<Longrightarrow>
   map_items (map JObj objs) =
     Inr (map (\<lambda>kvs.
            \<lparr>id_item = (case map_of kvs ''id'' of None \<Rightarrow> JUndefined | Some v \<Rightarrow> v),
             baseUrl = (case map_of kvs ''baseUrl'' of Some (JStr u) \<Rightarrow> u | _ \<Rightarrow> [])
                         @ ''=w1024-h1024'',
             filename = (case map_of kvs ''filename'' of None \<Rightarrow> JUndefined | Some v \<Rightarrow> v),
             mimeType = (case map_of kvs ''mimeType'' of None \<Rightarrow> JUndefined | Some v \<Rightarrow> v)\<rparr>)
          objs)"
proof (induction objs)
  case Nil
  then show ?case by simp
next
  case (Cons kvs objs)
  then obtain u where u: "map_of kvs ''baseUrl'' = Some (JStr u)"
    by auto
  from Cons have rest: "\<forall>kvs \<in> set objs. \<exists>u. map_of kvs ''baseUrl'' = Some (JStr u)"
    by simp
  show ?case
    using Cons.IH [OF rest] to_media_item_object [OF u] u by simp
qed

lemma batch_flags_favorite [simp]:
  "batch_flags (favorite_request mediaItemId t) = [(mediaItemId, ''favorite'')]"
  by (simp add: batch_flags_def favorite_request_def)

lemma batch_flags_archive [simp]:
  "batch_flags (archive_request mediaItemId t) = [(mediaItemId, ''archive'')]"
  by (simp add: batch_flags_def archive_request_def)

lemma action_run:
  assumes "getAccessToken a c = (Inr (Some t), c1, tr)"
    and "srv (mk t) r = (x, r1)"
  shows "fst (snd (snd (action srv a mk label msg c r))) = r1"
    and "fst (action srv a mk label msg c r) =
           (case x of
              Inl rej \<Rightarrow> Inl (Error msg)
            | Inr resp \<Rightarrow>
                if 200 \<le> status resp \<and> status resp \<le> 299 then Inr () else Inl (Error msg))"
    and "(\<exists>resp. x = Inr resp \<and> 200 \<le> status resp \<and> status resp \<le> 299) \<Longrightarrow>
           action srv a mk label msg c r = (Inr (), c1, r1, tr @ [Fetch (mk t)])"
  using assms getAccessToken_token_nonempty [OF assms(1)]
  by (auto simp: action_def action_try_def ok_def split: sum.splits)

section \<open>The claims\<close>

text \<open>
  C1. The claim is that a 401 answer to any operation clears the cached token and its
  expiry. The code does so in \<^verbatim>\<open>listMediaItems\<close> alone (lines 84 to 88). At the input
  below, a signed-in session, a cached token that has not expired and a remote that answers
  every request with status 401, \<^verbatim>\<open>listMediaItems\<close> clears both, and
  \<^verbatim>\<open>favoriteMediaItem\<close>, \<^verbatim>\<open>archiveMediaItem\<close> and \<^verbatim>\<open>deleteMediaItem\<close> fail and
  leave both in the cache.
\<close>

theorem only_list_clears_cache_on_401:
  "srv_401 (favorite_request ''a'' ''tok'') ()
     = (Inr \<lparr>status = 401, statusText = ''Unauthorized'', json = Inr (JObj [])\<rparr>, ())
   \<and> fst (snd (listMediaItems srv_401 env_signed_in cache_warm ()))
       = \<lparr>cachedToken = None, tokenExpiry = None\<rparr>
   \<and> fst (favoriteMediaItem srv_401 env_signed_in ''a'' cache_warm ())
       = Inl (Error ''Failed to favorite media item'')
   \<and> fst (snd (favoriteMediaItem srv_401 env_signed_in ''a'' cache_warm ()))
       = \<lparr>cachedToken = Some ''tok'', tokenExpiry = Some 5000\<rparr>
   \<and> fst (snd (archiveMediaItem srv_401 env_signed_in ''a'' cache_warm ()))
       = \<lparr>cachedToken = Some ''tok'', tokenExpiry = Some 5000\<rparr>
   \<and> fst (snd (deleteMediaItem srv_401 env_signed_in ''a'' cache_warm ()))
       = \<lparr>cachedToken = Some ''tok'', tokenExpiry = Some 5000\<rparr>"
proof -
  have lst: "fst (snd (listMediaItems srv_401 env_signed_in cache_warm ()))
       = \<lparr>cachedToken = None, tokenExpiry = None\<rparr>"
    by (simp add: listMediaItems_def list_try_def getAccessToken_warm srv_401_def ok_def)
  have act: "action srv_401 env_signed_in mk label msg cache_warm ()
       = (Inl (Error msg), cache_warm, (),
          [Fetch (mk ''tok''), ReadJson,
           ConsoleError ''Google Photos API Error:'' (LogVal (JObj [])),
           ConsoleError label (LogExn (Error msg))])" for mk label msg
    by (simp add: action_def action_try_def getAccessToken_warm srv_401_def ok_def error_data_def)
  have kept: "cache_warm = \<lparr>cachedToken = Some ''tok'', tokenExpiry = Some 5000\<rparr>"
    by (simp add: cache_warm_def)
  have srv: "srv_401 (favorite_request ''a'' ''tok'') ()
     = (Inr \<lparr>status = 401, statusText = ''Unauthorized'', json = Inr (JObj [])\<rparr>, ())"
    by (simp add: srv_401_def)
  show ?thesis
    unfolding favoriteMediaItem_def archiveMediaItem_def deleteMediaItem_def act
    using lst kept srv by simp
qed

text \<open>
  C2, as stated, fails: when \<^verbatim>\<open>fetch\<close> rejects inside \<^verbatim>\<open>archiveMediaItem\<close>, the
  error raised in the \<^verbatim>\<open>try\<close> block is the rejection, and the caller gets a new
  \<^verbatim>\<open>Error('Failed to archive media item')\<close> instead.
\<close>

theorem archive_replaces_fetch_rejection:
  "fst (action_try srv_offline (archive_request ''a'' ''tok'') ''Failed to archive media item'' ())
     = Inl (Rejection ''Failed to fetch'')
   \<and> fst (archiveMediaItem srv_offline env_signed_in ''a'' cache_warm ())
     = Inl (Error ''Failed to archive media item'')"
  by (simp add: archiveMediaItem_def action_def action_try_def getAccessToken_warm srv_offline_def)

text \<open>
  C2, amended. For every operation, a throw of \<^verbatim>\<open>getAccessToken\<close> ends the operation
  at once and reaches the caller as the same error, with the cache as \<^verbatim>\<open>getAccessToken\<close>
  left it, the remote untouched and no further call; a \<^verbatim>\<open>null\<close> from it ends the
  operation in the same way with \<^verbatim>\<open>Not authenticated\<close>. In \<^verbatim>\<open>listMediaItems\<close> every error
  raised in the \<^verbatim>\<open>try\<close> block reaches the caller as the same error. In favorite, archive
  and delete, once a token is there, a rejected \<^verbatim>\<open>fetch\<close> and every answer whose
  status is not 2xx reach the caller as the fixed error of that operation, whatever was
  raised, and an answer with a 2xx status makes the call succeed. No operation retries: a
  call makes at most one HTTP request.
\<close>

theorem error_propagation:
  "(getAccessToken a c = (Inl e, c1, tr) \<longrightarrow>
       listMediaItems srv a c r = (Inl e, c1, r, tr)
     \<and> favoriteMediaItem srv a mediaItemId c r = (Inl e, c1, r, tr)
     \<and> archiveMediaItem srv a mediaItemId c r = (Inl e, c1, r, tr)
     \<and> deleteMediaItem srv a mediaItemId c r = (Inl e, c1, r, tr))
   \<and> (getAccessToken a c = (Inr None, c1, tr) \<longrightarrow>
       listMediaItems srv a c r = (Inl (Error ''Not authenticated''), c1, r, tr)
     \<and> favoriteMediaItem srv a mediaItemId c r = (Inl (Error ''Not authenticated''), c1, r, tr)
     \<and> archiveMediaItem srv a mediaItemId c r = (Inl (Error ''Not authenticated''), c1, r, tr)
     \<and> deleteMediaItem srv a mediaItemId c r = (Inl (Error ''Not authenticated''), c1, r, tr))
   \<and> (getAccessToken a c = (Inr (Some t), c1, tr) \<and> list_try srv t c1 r = (Inl e2, c2, r2, tr2) \<longrightarrow>
       fst (listMediaItems srv a c r) = Inl e2)
   \<and> (getAccessToken a c = (Inr (Some t), c1, tr) \<and> srv (list_request t) r = (Inl x, r1) \<longrightarrow>
       fst (listMediaItems srv a c r) = Inl (Rejection x))
   \<and> (getAccessToken a c = (Inr (Some t), c1, tr) \<and> srv (list_request t) r = (Inr resp, r1)
        \<and> 200 \<le> status resp \<and> status resp \<le> 299 \<and> json resp = Inl x \<longrightarrow>
       fst (listMediaItems srv a c r) = Inl (Rejection x))
   \<and> (getAccessToken a c = (Inr (Some t), c1, tr) \<longrightarrow>
       (\<forall>x. fst (favoriteMediaItem srv a mediaItemId c r) = Inl x \<longrightarrow>
            x = Error ''Failed to favorite media item'')
     \<and> (\<forall>x. fst (archiveMediaItem srv a mediaItemId c r) = Inl x \<longrightarrow>
            x = Error ''Failed to archive media item'')
     \<and> (\<forall>x. fst (deleteMediaItem srv a mediaItemId c r) = Inl x \<longrightarrow>
            x = Error ''Failed to delete media item''))
   \<and> (getAccessToken a c = (Inr (Some t), c1, tr)
        \<and> srv (favorite_request mediaItemId t) r = (y, r1) \<longrightarrow>
       fst (favoriteMediaItem srv a mediaItemId c r) =
         (case y of
            Inl rej \<Rightarrow> Inl (Error ''Failed to favorite media item'')
          | Inr resp \<Rightarrow>
              if 200 \<le> status resp \<and> status resp \<le> 299 then Inr ()
              else Inl (Error ''Failed to favorite media item'')))
   \<and> (getAccessToken a c = (Inr (Some t), c1, tr)
        \<and> srv (archive_request mediaItemId t) r = (y, r1) \<longrightarrow>
       fst (archiveMediaItem srv a mediaItemId c r) =
         (case y of
            Inl rej \<Rightarrow> Inl (Error ''Failed to archive media item'')
          | Inr resp \<Rightarrow>
              if 200 \<le> status resp \<and> status resp \<le> 299 then Inr ()
              else Inl (Error ''Failed to archive media item'')))
   \<and> (getAccessToken a c = (Inr (Some t), c1, tr)
        \<and> srv (delete_request mediaItemId t) r = (y, r1) \<longrightarrow>
       fst (deleteMediaItem srv a mediaItemId c r) =
         (case y of
            Inl rej \<Rightarrow> Inl (Error ''Failed to delete media item'')
          | Inr resp \<Rightarrow>
              if 200 \<le> status resp \<and> status resp \<le> 299 then Inr ()
              else Inl (Error ''Failed to delete media item'')))
   \<and> length (filter is_fetch (snd (snd (snd (listMediaItems srv a c r))))) \<le> 1
   \<and> length (filter is_fetch (snd (snd (snd (favoriteMediaItem srv a mediaItemId c r))))) \<le> 1
   \<and> length (filter is_fetch (snd (snd (snd (archiveMediaItem srv a mediaItemId c r))))) \<le> 1
   \<and> length (filter is_fetch (snd (snd (snd (deleteMediaItem srv a mediaItemId c r))))) \<le> 1"
proof -
  have tok: "getAccessToken a c = (Inl e, c1, tr) \<longrightarrow>
       listMediaItems srv a c r = (Inl e, c1, r, tr)
     \<and> favoriteMediaItem srv a mediaItemId c r = (Inl e, c1, r, tr)
     \<and> archiveMediaItem srv a mediaItemId c r = (Inl e, c1, r, tr)
     \<and> deleteMediaItem srv a mediaItemId c r = (Inl e, c1, r, tr)"
    by (simp add: listMediaItems_def favoriteMediaItem_def archiveMediaItem_def
        deleteMediaItem_def action_token_failure)
  have nul: "getAccessToken a c = (Inr None, c1, tr) \<longrightarrow>
       listMediaItems srv a c r = (Inl (Error ''Not authenticated''), c1, r, tr)
     \<and> favoriteMediaItem srv a mediaItemId c r = (Inl (Error ''Not authenticated''), c1, r, tr)
     \<and> archiveMediaItem srv a mediaItemId c r = (Inl (Error ''Not authenticated''), c1, r, tr)
     \<and> deleteMediaItem srv a mediaItemId c r = (Inl (Error ''Not authenticated''), c1, r, tr)"
    by (simp add: listMediaItems_def favoriteMediaItem_def archiveMediaItem_def
        deleteMediaItem_def action_def)
  have lst: "getAccessToken a c = (Inr (Some t), c1, tr) \<and> list_try srv t c1 r = (Inl e2, c2, r2, tr2) \<longrightarrow>
       fst (listMediaItems srv a c r) = Inl e2"
    by (auto simp: listMediaItems_def dest: getAccessToken_token_nonempty)
  have lrej: "getAccessToken a c = (Inr (Some t), c1, tr) \<and> srv (list_request t) r = (Inl x, r1) \<longrightarrow>
       fst (listMediaItems srv a c r) = Inl (Rejection x)"
    using listMediaItems_rejections(1) [where srv = srv] by blast
  have ljson: "getAccessToken a c = (Inr (Some t), c1, tr) \<and> srv (list_request t) r = (Inr resp, r1)
        \<and> 200 \<le> status resp \<and> status resp \<le> 299 \<and> json resp = Inl x \<longrightarrow>
       fst (listMediaItems srv a c r) = Inl (Rejection x)"
    using listMediaItems_rejections(2) [where srv = srv] by blast
  have act: "getAccessToken a c = (Inr (Some t), c1, tr) \<longrightarrow>
       (\<forall>x. fst (favoriteMediaItem srv a mediaItemId c r) = Inl x \<longrightarrow>
            x = Error ''Failed to favorite media item'')
     \<and> (\<forall>x. fst (archiveMediaItem srv a mediaItemId c r) = Inl x \<longrightarrow>
            x = Error ''Failed to archive media item'')
     \<and> (\<forall>x. fst (deleteMediaItem srv a mediaItemId c r) = Inl x \<longrightarrow>
            x = Error ''Failed to delete media item'')"
    unfolding favoriteMediaItem_def archiveMediaItem_def deleteMediaItem_def
    by (blast dest: action_failure_message)
  have out: "getAccessToken a c = (Inr (Some t), c1, tr) \<and> srv (mk t) r = (y, r1) \<longrightarrow>
       fst (action srv a mk label msg c r) =
         (case y of
            Inl rej \<Rightarrow> Inl (Error msg)
          | Inr resp \<Rightarrow>
              if 200 \<le> status resp \<and> status resp \<le> 299 then Inr () else Inl (Error msg))"
    for mk label msg
    using action_outcome [where srv = srv] by blast
  have one: "length (filter is_fetch (snd (snd (snd (action srv a mk label msg c r))))) \<le> 1"
    for mk label msg
    using action_fetches [of srv a mk label msg c r] by auto
  show ?thesis
    unfolding favoriteMediaItem_def archiveMediaItem_def deleteMediaItem_def
    using tok nul lst lrej ljson act out one list_fetches [of srv a c r]
    unfolding favoriteMediaItem_def archiveMediaItem_def deleteMediaItem_def
    by (intro conjI) blast+
qed

theorem error_propagation_witness:
  "getAccessToken env_silent_rejected cache_empty =
     (Inl (Error ''Failed to get access token''), cache_empty,
      [GetIdTokenResult True,
       ConsoleError ''Error getting access token:''
         (LogExn (Rejection ''auth/network-request-failed''))])
   \<and> listMediaItems srv_offline env_silent_rejected cache_empty ()
       = (Inl (Error ''Failed to get access token''), cache_empty, (),
          [GetIdTokenResult True,
           ConsoleError ''Error getting access token:''
             (LogExn (Rejection ''auth/network-request-failed''))])
   \<and> getAccessToken env_signed_in cache_warm = (Inr (Some ''tok''), cache_warm, [])
   \<and> srv_offline (list_request ''tok'') () = (Inl ''Failed to fetch'', ())
   \<and> fst (listMediaItems srv_offline env_signed_in cache_warm ())
       = Inl (Rejection ''Failed to fetch'')
   \<and> srv_offline (archive_request ''a'' ''tok'') () = (Inl ''Failed to fetch'', ())
   \<and> fst (archiveMediaItem srv_offline env_signed_in ''a'' cache_warm ())
       = Inl (Error ''Failed to archive media item'')
   \<and> srv_401 (favorite_request ''a'' ''tok'') ()
       = (Inr \<lparr>status = 401, statusText = ''Unauthorized'', json = Inr (JObj [])\<rparr>, ())
   \<and> fst (favoriteMediaItem srv_401 env_signed_in ''a'' cache_warm ())
       = Inl (Error ''Failed to favorite media item'')
   \<and> srv_success (delete_request ''a'' ''tok'') ()
       = (Inr \<lparr>status = 200, statusText = ''OK'', json = Inr (JObj [])\<rparr>, ())
   \<and> fst (deleteMediaItem srv_success env_signed_in ''a'' cache_warm ()) = Inr ()"
proof -
  let ?tr = "[GetIdTokenResult True,
              ConsoleError ''Error getting access token:''
                (LogExn (Rejection ''auth/network-request-failed''))]"
  let ?r401 = "\<lparr>status = 401, statusText = ''Unauthorized'', json = Inr (JObj [])\<rparr>"
  let ?r200 = "\<lparr>status = 200, statusText = ''OK'', json = Inr (JObj [])\<rparr>"
  note h1 = getAccessToken_silent_rejected
  note h2 = getAccessToken_warm
  have h3: "srv_offline (list_request ''tok'') () = (Inl ''Failed to fetch'', ())"
    by (simp add: srv_offline_def)
  have h4: "srv_offline (archive_request ''a'' ''tok'') () = (Inl ''Failed to fetch'', ())"
    by (simp add: srv_offline_def)
  have h5: "srv_401 (favorite_request ''a'' ''tok'') () = (Inr ?r401, ())"
    by (simp add: srv_401_def)
  have h6: "srv_success (delete_request ''a'' ''tok'') () = (Inr ?r200, ())"
    by (simp add: srv_success_def)
  have w1: "listMediaItems srv_offline env_silent_rejected cache_empty ()
       = (Inl (Error ''Failed to get access token''), cache_empty, (), ?tr)"
    using h1 error_propagation [where a = env_silent_rejected and c = cache_empty
        and srv = srv_offline and r = "()" and mediaItemId = "''a''"
        and e = "Error ''Failed to get access token''" and ?c1.0 = cache_empty and tr = ?tr]
    by blast
  have w3: "fst (listMediaItems srv_offline env_signed_in cache_warm ())
       = Inl (Rejection ''Failed to fetch'')"
    using h2 h3 error_propagation [where a = env_signed_in and c = cache_warm
        and srv = srv_offline and r = "()" and mediaItemId = "''a''"
        and t = "''tok''" and ?c1.0 = cache_warm and tr = "[]"
        and x = "''Failed to fetch''" and ?r1.0 = "()"]
    by blast
  have "fst (archiveMediaItem srv_offline env_signed_in ''a'' cache_warm ()) =
         (case (Inl ''Failed to fetch'' :: string + response) of
            Inl rej \<Rightarrow> Inl (Error ''Failed to archive media item'')
          | Inr resp \<Rightarrow>
              if 200 \<le> status resp \<and> status resp \<le> 299 then Inr ()
              else Inl (Error ''Failed to archive media item''))"
    using h2 h4 error_propagation [where a = env_signed_in and c = cache_warm
        and srv = srv_offline and r = "()" and mediaItemId = "''a''"
        and t = "''tok''" and ?c1.0 = cache_warm and tr = "[]"
        and y = "Inl ''Failed to fetch''" and ?r1.0 = "()"]
    by blast
  then have w4: "fst (archiveMediaItem srv_offline env_signed_in ''a'' cache_warm ())
       = Inl (Error ''Failed to archive media item'')"
    by simp
  have "fst (favoriteMediaItem srv_401 env_signed_in ''a'' cache_warm ()) =
         (case (Inr ?r401 :: string + response) of
            Inl rej \<Rightarrow> Inl (Error ''Failed to favorite media item'')
          | Inr resp \<Rightarrow>
              if 200 \<le> status resp \<and> status resp \<le> 299 then Inr ()
              else Inl (Error ''Failed to favorite media item''))"
    using h2 h5 error_propagation [where a = env_signed_in and c = cache_warm
        and srv = srv_401 and r = "()" and mediaItemId = "''a''"
        and t = "''tok''" and ?c1.0 = cache_warm and tr = "[]"
        and y = "Inr ?r401" and ?r1.0 = "()"]
    by blast
  then have w5: "fst (favoriteMediaItem srv_401 env_signed_in ''a'' cache_warm ())
       = Inl (Error ''Failed to favorite media item'')"
    by simp
  have "fst (deleteMediaItem srv_success env_signed_in ''a'' cache_warm ()) =
         (case (Inr ?r200 :: string + response) of
            Inl rej \<Rightarrow> Inl (Error ''Failed to delete media item'')
          | Inr resp \<Rightarrow>
              if 200 \<le> status resp \<and> status resp \<le> 299 then Inr ()
              else Inl (Error ''Failed to delete media item''))"
    using h2 h6 error_propagation [where a = env_signed_in and c = cache_warm
        and srv = srv_success and r = "()" and mediaItemId = "''a''"
        and t = "''tok''" and ?c1.0 = cache_warm and tr = "[]"
        and y = "Inr ?r200" and ?r1.0 = "()"]
    by blast
  then have w6: "fst (deleteMediaItem srv_success env_signed_in ''a'' cache_warm ()) = Inr ()"
    by simp
  show ?thesis
    using h1 h2 h3 h4 h5 h6 w1 w3 w4 w5 w6 by (intro conjI)
qed

text \<open>
  C3. When \<^verbatim>\<open>listMediaItems\<close> has obtained a token and \<^verbatim>\<open>fetch\<close> answers its request
  with status 401, the call fails with \<^verbatim>\<open>Authentication expired, please try again\<close> and
  leaves the cached token and its expiry cleared; the next \<^verbatim>\<open>getAccessToken\<close> of an
  authenticated session then starts with \<^verbatim>\<open>getIdTokenResult(true)\<close>, and any token it
  returns is one the identity provider handed out in that call, not a cached one.
\<close>

theorem list_401_forces_reacquisition:
  assumes "getAccessToken a c = (Inr (Some t), c1, tr)"
    and "srv (list_request t) r = (Inr resp, r1)"
    and "status resp = 401"
    and "currentUser a2"
    and "listMediaItems srv a c r = (res, c', r', tr')"
  shows "res = Inl (Error ''Authentication expired, please try again'')
       \<and> cachedToken c' = None \<and> tokenExpiry c' = None
       \<and> (\<exists>tr2. snd (snd (getAccessToken a2 c')) = GetIdTokenResult True # tr2)
       \<and> (\<forall>t2. fst (getAccessToken a2 c') = Inr (Some t2) \<longrightarrow>
             getIdToken a2 = Inr t2 \<or> reauthenticateWithPopup a2 = Inr (Some t2))"
proof -
  have c': "c' = \<lparr>cachedToken = None, tokenExpiry = None\<rparr>"
    and res: "res = Inl (Error ''Authentication expired, please try again'')"
    using listMediaItems_401 [where srv = srv, OF assms(1-3)] assms(5) by simp_all
  have miss: "\<not> cache_valid a2 c'"
    by (simp add: c')
  show ?thesis
    using getAccessToken_miss [OF assms(4) miss] res c' by auto
qed

theorem list_401_forces_reacquisition_witness:
  "getAccessToken env_signed_in cache_warm = (Inr (Some ''tok''), cache_warm, [])
   \<and> srv_401 (list_request ''tok'') ()
       = (Inr \<lparr>status = 401, statusText = ''Unauthorized'', json = Inr (JObj [])\<rparr>, ())
   \<and> currentUser env_signed_in
   \<and> fst (listMediaItems srv_401 env_signed_in cache_warm ())
       = Inl (Error ''Authentication expired, please try again'')
   \<and> fst (snd (listMediaItems srv_401 env_signed_in cache_warm ()))
       = \<lparr>cachedToken = None, tokenExpiry = None\<rparr>
   \<and> getAccessToken env_signed_in \<lparr>cachedToken = None, tokenExpiry = None\<rparr>
       = (Inr (Some ''id-token''), \<lparr>cachedToken = Some ''id-token'', tokenExpiry = Some 3601200\<rparr>,
          [GetIdTokenResult True, GetIdToken])"
proof -
  have h1: "getAccessToken env_signed_in cache_warm = (Inr (Some ''tok''), cache_warm, [])"
    by (rule getAccessToken_warm)
  have h2: "srv_401 (list_request ''tok'') ()
       = (Inr \<lparr>status = 401, statusText = ''Unauthorized'', json = Inr (JObj [])\<rparr>, ())"
    by (simp add: srv_401_def)
  have h3: "status \<lparr>status = 401, statusText = ''Unauthorized'', json = Inr (JObj [])\<rparr> = 401"
    by simp
  have h4: "currentUser env_signed_in"
    by (simp add: env_signed_in_def)
  obtain res c' r' tr' where h5: "listMediaItems srv_401 env_signed_in cache_warm () = (res, c', r', tr')"
    by (cases "listMediaItems srv_401 env_signed_in cache_warm ()") auto
  have next_call: "getAccessToken env_signed_in \<lparr>cachedToken = None, tokenExpiry = None\<rparr>
       = (Inr (Some ''id-token''), \<lparr>cachedToken = Some ''id-token'', tokenExpiry = Some 3601200\<rparr>,
          [GetIdTokenResult True, GetIdToken])"
    by (simp add: getAccessToken_def acquire_def store_token_def env_signed_in_def)
  from list_401_forces_reacquisition [where srv = srv_401, OF h1 h2 h3 h4 h5]
  have "res = Inl (Error ''Authentication expired, please try again'')"
    and "c' = \<lparr>cachedToken = None, tokenExpiry = None\<rparr>"
    by simp_all
  with h1 h2 h4 h5 next_call show ?thesis by simp
qed

text \<open>
  C4. For every state of the token cache, a valid and unexpired cached token included, if no
  authenticated session exists then each of list, favorite, archive and delete fails with
  \<^verbatim>\<open>Not authenticated\<close>, leaves the cache and the remote as they were, and makes no
  outside call at all, so no HTTP request.
\<close>

theorem no_session_not_authenticated:
  assumes "\<not> currentUser a"
  shows "listMediaItems srv a c r = (Inl (Error ''Not authenticated''), c, r, [])
       \<and> favoriteMediaItem srv a mediaItemId c r = (Inl (Error ''Not authenticated''), c, r, [])
       \<and> archiveMediaItem srv a mediaItemId c r = (Inl (Error ''Not authenticated''), c, r, [])
       \<and> deleteMediaItem srv a mediaItemId c r = (Inl (Error ''Not authenticated''), c, r, [])"
  using assms
  by (simp add: listMediaItems_def favoriteMediaItem_def archiveMediaItem_def
      deleteMediaItem_def action_def getAccessToken_signed_out)

theorem no_session_not_authenticated_witness:
  "\<not> currentUser env_signed_out
   \<and> listMediaItems srv_success env_signed_out cache_warm ()
       = (Inl (Error ''Not authenticated''), cache_warm, (), [])
   \<and> favoriteMediaItem srv_success env_signed_out ''a'' cache_warm ()
       = (Inl (Error ''Not authenticated''), cache_warm, (), [])
   \<and> archiveMediaItem srv_success env_signed_out ''a'' cache_warm ()
       = (Inl (Error ''Not authenticated''), cache_warm, (), [])
   \<and> deleteMediaItem srv_success env_signed_out ''a'' cache_warm ()
       = (Inl (Error ''Not authenticated''), cache_warm, (), [])"
proof -
  have h: "\<not> currentUser env_signed_out"
    by (simp add: env_signed_out_def env_signed_in_def)
  show ?thesis
    using h no_session_not_authenticated [OF h, of srv_success cache_warm "()" "''a''"]
    by simp
qed

text \<open>
  C5. For every authenticated session and every cache that holds a token whose expiry is
  still in the future at the clock's reading, \<^verbatim>\<open>getAccessToken\<close> returns the cached
  token, leaves the cache as it was and makes no outside call.
\<close>

theorem cached_token_returned_without_io:
  assumes "currentUser a"
    and "cachedToken c = Some t" and "t \<noteq> []"
    and "tokenExpiry c = Some e" and "now_check a < e"
  shows "getAccessToken a c = (Inr (Some t), c, [])"
  using assms by (simp add: getAccessToken_def cache_valid_def)

theorem cached_token_returned_without_io_witness:
  "currentUser env_signed_in \<and> cachedToken cache_warm = Some ''tok'' \<and> ''tok'' \<noteq> []
   \<and> tokenExpiry cache_warm = Some 5000 \<and> now_check env_signed_in < 5000
   \<and> getAccessToken env_signed_in cache_warm = (Inr (Some ''tok''), cache_warm, [])"
proof -
  have h: "currentUser env_signed_in" "cachedToken cache_warm = Some ''tok''" "''tok'' \<noteq> []"
    "tokenExpiry cache_warm = Some 5000" "now_check env_signed_in < 5000"
    by (simp_all add: env_signed_in_def cache_warm_def)
  show ?thesis
    using h cached_token_returned_without_io [OF h] by simp
qed

text \<open>
  C6, as stated, fails: when the silent retrieval fails by rejecting, the \<^verbatim>\<open>catch\<close>
  block takes over and \<^verbatim>\<open>getAccessToken\<close> throws without opening the interactive
  re-authentication, even though that would have given a token.
\<close>

theorem silent_rejection_skips_reauthentication:
  "getAccessToken env_silent_rejected cache_empty =
     (Inl (Error ''Failed to get access token''), cache_empty,
      [GetIdTokenResult True,
       ConsoleError ''Error getting access token:''
         (LogExn (Rejection ''auth/network-request-failed''))])
   \<and> ReauthenticateWithPopup photos_scope
       \<notin> set (snd (snd (getAccessToken env_silent_rejected cache_empty)))"
  by (simp add: getAccessToken_silent_rejected)

text \<open>
  C6, amended. On a cache miss with an authenticated session, \<^verbatim>\<open>getAccessToken\<close>
  starts with the silent retrieval \<^verbatim>\<open>getIdTokenResult(true)\<close>; when that settles with a
  sign-in provider other than \<^verbatim>\<open>google.com\<close>, or with \<^verbatim>\<open>google.com\<close> and
  \<^verbatim>\<open>getIdToken()\<close> settles with an empty token, it goes on to the interactive
  re-authentication; a non-empty token that the silent retrieval gives under
  \<^verbatim>\<open>google.com\<close>, and a non-empty token that the interactive re-authentication gives
  after either fallback, is returned and cached with the expiry
  \<^verbatim>\<open>Date.now() + 3600000\<close> read when it is stored; and a token returned is one that
  either path gave.
\<close>

theorem acquisition_on_cache_miss:
  assumes "currentUser a" and "\<not> cache_valid a c"
  shows "(\<exists>tr. snd (snd (getAccessToken a c)) = GetIdTokenResult True # tr)
       \<and> ((\<exists>p. getIdTokenResult a = Inr p \<and> p \<noteq> Some ''google.com'')
            \<or> (getIdTokenResult a = Inr (Some ''google.com'') \<and> getIdToken a = Inr [])
          \<longrightarrow> ReauthenticateWithPopup photos_scope \<in> set (snd (snd (getAccessToken a c))))
       \<and> (\<forall>t. fst (getAccessToken a c) = Inr (Some t) \<longrightarrow>
            (getIdToken a = Inr t \<or> reauthenticateWithPopup a = Inr (Some t))
            \<and> fst (snd (getAccessToken a c))
                = \<lparr>cachedToken = Some t, tokenExpiry = Some (now_store a + 3600000)\<rparr>)
       \<and> (\<forall>t. getIdTokenResult a = Inr (Some ''google.com'') \<and> getIdToken a = Inr t \<and> t \<noteq> []
            \<longrightarrow> getAccessToken a c =
                  (Inr (Some t),
                   \<lparr>cachedToken = Some t, tokenExpiry = Some (now_store a + 3600000)\<rparr>,
                   [GetIdTokenResult True, GetIdToken]))
       \<and> (\<forall>t p. getIdTokenResult a = Inr p \<and> p \<noteq> Some ''google.com''
              \<and> reauthenticateWithPopup a = Inr (Some t) \<and> t \<noteq> []
            \<longrightarrow> getAccessToken a c =
                  (Inr (Some t),
                   \<lparr>cachedToken = Some t, tokenExpiry = Some (now_store a + 3600000)\<rparr>,
                   [GetIdTokenResult True, ReauthenticateWithPopup photos_scope]))
       \<and> (\<forall>t. getIdTokenResult a = Inr (Some ''google.com'') \<and> getIdToken a = Inr []
              \<and> reauthenticateWithPopup a = Inr (Some t) \<and> t \<noteq> []
            \<longrightarrow> getAccessToken a c =
                  (Inr (Some t),
                   \<lparr>cachedToken = Some t, tokenExpiry = Some (now_store a + 3600000)\<rparr>,
                   [GetIdTokenResult True, GetIdToken, ReauthenticateWithPopup photos_scope]))"
proof -
  have first: "\<exists>tr. snd (snd (getAccessToken a c)) = GetIdTokenResult True # tr"
    using getAccessToken_miss(1) [OF assms] .
  have trace: "set (snd (snd (acquire a c))) \<subseteq> set (snd (snd (getAccessToken a c)))"
    using assms by (auto simp: getAccessToken_def split: prod.splits sum.splits)
  have fallback: "(\<exists>p. getIdTokenResult a = Inr p \<and> p \<noteq> Some ''google.com'')
            \<or> (getIdTokenResult a = Inr (Some ''google.com'') \<and> getIdToken a = Inr [])
          \<longrightarrow> ReauthenticateWithPopup photos_scope \<in> set (snd (snd (getAccessToken a c)))"
    using trace acquire_fallback(1) [of a _ c] acquire_fallback(2) [of a c] by blast
  have stored: "fst (getAccessToken a c) = Inr (Some t) \<longrightarrow>
            (getIdToken a = Inr t \<or> reauthenticateWithPopup a = Inr (Some t))
            \<and> fst (snd (getAccessToken a c))
                = \<lparr>cachedToken = Some t, tokenExpiry = Some (now_store a + 3600000)\<rparr>" for t
    using getAccessToken_miss(2) [OF assms, of t] by (auto simp: store_token_def)
  have silent: "getIdTokenResult a = Inr (Some ''google.com'') \<and> getIdToken a = Inr t \<and> t \<noteq> []
            \<longrightarrow> getAccessToken a c =
                  (Inr (Some t),
                   \<lparr>cachedToken = Some t, tokenExpiry = Some (now_store a + 3600000)\<rparr>,
                   [GetIdTokenResult True, GetIdToken])" for t
    using getAccessToken_silent_path [OF assms] by blast
  have popup1: "getIdTokenResult a = Inr p \<and> p \<noteq> Some ''google.com''
              \<and> reauthenticateWithPopup a = Inr (Some t) \<and> t \<noteq> []
            \<longrightarrow> getAccessToken a c =
                  (Inr (Some t),
                   \<lparr>cachedToken = Some t, tokenExpiry = Some (now_store a + 3600000)\<rparr>,
                   [GetIdTokenResult True, ReauthenticateWithPopup photos_scope])" for t p
    using getAccessToken_popup_path(1) [OF assms] by blast
  have popup2: "getIdTokenResult a = Inr (Some ''google.com'') \<and> getIdToken a = Inr []
              \<and> reauthenticateWithPopup a = Inr (Some t) \<and> t \<noteq> []
            \<longrightarrow> getAccessToken a c =
                  (Inr (Some t),
                   \<lparr>cachedToken = Some t, tokenExpiry = Some (now_store a + 3600000)\<rparr>,
                   [GetIdTokenResult True, GetIdToken, ReauthenticateWithPopup photos_scope])" for t
    using getAccessToken_popup_path(2) [OF assms] by blast
  show ?thesis
    using first fallback stored silent popup1 popup2 by (intro conjI allI) blast+
qed

theorem acquisition_on_cache_miss_witness:
  "currentUser env_password \<and> \<not> cache_valid env_password cache_empty
   \<and> getIdTokenResult env_password = Inr (Some ''password'')
   \<and> reauthenticateWithPopup env_password = Inr (Some ''access-token'')
   \<and> getAccessToken env_password cache_empty
       = (Inr (Some ''access-token''),
          \<lparr>cachedToken = Some ''access-token'', tokenExpiry = Some 3601200\<rparr>,
          [GetIdTokenResult True, ReauthenticateWithPopup photos_scope])
   \<and> currentUser env_signed_in \<and> \<not> cache_valid env_signed_in cache_empty
   \<and> getIdTokenResult env_signed_in = Inr (Some ''google.com'')
   \<and> getIdToken env_signed_in = Inr ''id-token''
   \<and> getAccessToken env_signed_in cache_empty
       = (Inr (Some ''id-token''),
          \<lparr>cachedToken = Some ''id-token'', tokenExpiry = Some 3601200\<rparr>,
          [GetIdTokenResult True, GetIdToken])"
proof -
  have p1: "currentUser env_password"
    and p3: "getIdTokenResult env_password = Inr (Some ''password'')"
    and p4: "reauthenticateWithPopup env_password = Inr (Some ''access-token'')"
    and p5: "now_store env_password = 1200"
    by (simp_all add: env_password_def env_signed_in_def)
  have p2: "\<not> cache_valid env_password cache_empty"
    by (simp add: cache_empty_def)
  have s1: "currentUser env_signed_in"
    and s3: "getIdTokenResult env_signed_in = Inr (Some ''google.com'')"
    and s4: "getIdToken env_signed_in = Inr ''id-token''"
    and s5: "now_store env_signed_in = 1200"
    by (simp_all add: env_signed_in_def)
  have s2: "\<not> cache_valid env_signed_in cache_empty"
    by (simp add: cache_empty_def)
  have "getAccessToken env_password cache_empty
       = (Inr (Some ''access-token''),
          \<lparr>cachedToken = Some ''access-token'',
            tokenExpiry = Some (now_store env_password + 3600000)\<rparr>,
          [GetIdTokenResult True, ReauthenticateWithPopup photos_scope])"
    using p3 p4 acquisition_on_cache_miss [OF p1 p2] by blast
  then have popup: "getAccessToken env_password cache_empty
       = (Inr (Some ''access-token''),
          \<lparr>cachedToken = Some ''access-token'', tokenExpiry = Some 3601200\<rparr>,
          [GetIdTokenResult True, ReauthenticateWithPopup photos_scope])"
    by (simp add: p5)
  have "getAccessToken env_signed_in cache_empty
       = (Inr (Some ''id-token''),
          \<lparr>cachedToken = Some ''id-token'',
            tokenExpiry = Some (now_store env_signed_in + 3600000)\<rparr>,
          [GetIdTokenResult True, GetIdToken])"
    using s3 s4 acquisition_on_cache_miss [OF s1 s2] by blast
  then have silent: "getAccessToken env_signed_in cache_empty
       = (Inr (Some ''id-token''),
          \<lparr>cachedToken = Some ''id-token'', tokenExpiry = Some 3601200\<rparr>,
          [GetIdTokenResult True, GetIdToken])"
    by (simp add: s5)
  show ?thesis
    using p1 p2 p3 p4 popup s1 s2 s3 s4 silent by (intro conjI)
qed

text \<open>
  C7. When \<^verbatim>\<open>listMediaItems\<close> has obtained a token, \<^verbatim>\<open>fetch\<close> answers with a success
  status and the body parses, the call has made exactly one HTTP request, the GET of
  \<^verbatim>\<open>/v1/mediaItems?pageSize=100\<close> with no page token, and its result is what that one page
  gives; every item returned has a \<^verbatim>\<open>baseUrl\<close> that ends with \<^verbatim>\<open>=w1024-h1024\<close>;
  when \<^verbatim>\<open>mediaItems\<close> is absent, falsy or the empty array the result is the empty list,
  not an error; and when \<^verbatim>\<open>mediaItems\<close> is an array of objects that each have a string
  \<^verbatim>\<open>baseUrl\<close>, the call succeeds with exactly one item for each object, in the same
  order, holding the object's \<^verbatim>\<open>id\<close>, \<^verbatim>\<open>filename\<close> and \<^verbatim>\<open>mimeType\<close> and its
  \<^verbatim>\<open>baseUrl\<close> followed by \<^verbatim>\<open>=w1024-h1024\<close>.
\<close>

theorem list_single_page:
  assumes "getAccessToken a c = (Inr (Some t), c1, tr)"
    and "srv (list_request t) r = (Inr resp, r1)"
    and "200 \<le> status resp" and "status resp \<le> 299"
    and "json resp = Inr data"
  shows "filter is_fetch (snd (snd (snd (listMediaItems srv a c r)))) =
           [Fetch \<lparr>url = ''https://photoslibrary.googleapis.com/v1/mediaItems?pageSize=100'',
                   http_method = ''GET'', headers = json_headers t, body = None\<rparr>]
       \<and> fst (listMediaItems srv a c r) = read_items data
       \<and> (\<forall>ms. fst (listMediaItems srv a c r) = Inr ms \<longrightarrow>
             (\<forall>m \<in> set ms. \<exists>s. baseUrl m = s @ ''=w1024-h1024''))
       \<and> ((\<exists>mi. get_prop data ''mediaItems'' = Inr mi \<and> (\<not> truthy mi \<or> mi = JArr []))
          \<longrightarrow> fst (listMediaItems srv a c r) = Inr [])
       \<and> (\<forall>top objs.
             data = JObj top \<and> map_of top ''mediaItems'' = Some (JArr (map JObj objs))
             \<and> (\<forall>kvs \<in> set objs. \<exists>u. map_of kvs ''baseUrl'' = Some (JStr u))
           \<longrightarrow> fst (listMediaItems srv a c r) =
                 Inr (map (\<lambda>kvs.
                        \<lparr>id_item = (case map_of kvs ''id'' of None \<Rightarrow> JUndefined | Some v \<Rightarrow> v),
                         baseUrl = (case map_of kvs ''baseUrl'' of Some (JStr u) \<Rightarrow> u | _ \<Rightarrow> [])
                                     @ ''=w1024-h1024'',
                         filename =
                           (case map_of kvs ''filename'' of None \<Rightarrow> JUndefined | Some v \<Rightarrow> v),
                         mimeType =
                           (case map_of kvs ''mimeType'' of None \<Rightarrow> JUndefined | Some v \<Rightarrow> v)\<rparr>)
                      objs))"
proof -
  have ok: "ok resp"
    using assms(3,4) by (simp add: ok_def)
  note page = listMediaItems_page [where srv = srv, OF assms(1,2) ok assms(5)]
  have suffix: "\<forall>ms. fst (listMediaItems srv a c r) = Inr ms \<longrightarrow>
             (\<forall>m \<in> set ms. \<exists>s. baseUrl m = s @ ''=w1024-h1024'')"
    using page(1) read_items_suffix by auto
  have none: "(\<exists>mi. get_prop data ''mediaItems'' = Inr mi \<and> (\<not> truthy mi \<or> mi = JArr []))
          \<longrightarrow> fst (listMediaItems srv a c r) = Inr []"
    using page(1) by (auto simp: read_items_def)
  have items: "fst (listMediaItems srv a c r) =
                 Inr (map (\<lambda>kvs.
                        \<lparr>id_item = (case map_of kvs ''id'' of None \<Rightarrow> JUndefined | Some v \<Rightarrow> v),
                         baseUrl = (case map_of kvs ''baseUrl'' of Some (JStr u) \<Rightarrow> u | _ \<Rightarrow> [])
                                     @ ''=w1024-h1024'',
                         filename =
                           (case map_of kvs ''filename'' of None \<Rightarrow> JUndefined | Some v \<Rightarrow> v),
                         mimeType =
                           (case map_of kvs ''mimeType'' of None \<Rightarrow> JUndefined | Some v \<Rightarrow> v)\<rparr>)
                      objs)"
    if "data = JObj top" and "map_of top ''mediaItems'' = Some (JArr (map JObj objs))"
      and "\<forall>kvs \<in> set objs. \<exists>u. map_of kvs ''baseUrl'' = Some (JStr u)" for top objs
  proof -
    have "get_prop data ''mediaItems'' = Inr (JArr (map JObj objs))"
      using that(1,2) by simp
    then have "read_items data = map_items (map JObj objs)"
      by (rule read_items_array)
    with page(1) map_items_objects [OF that(3)] show ?thesis by simp
  qed
  have fetches: "filter is_fetch (snd (snd (snd (listMediaItems srv a c r)))) =
           [Fetch \<lparr>url = ''https://photoslibrary.googleapis.com/v1/mediaItems?pageSize=100'',
                   http_method = ''GET'', headers = json_headers t, body = None\<rparr>]"
    using page(2) by (simp add: list_request_def)
  show ?thesis
    using fetches page(1) suffix none items by (intro conjI allI impI) blast+
qed

theorem list_single_page_witness:
  "getAccessToken env_signed_in cache_warm = (Inr (Some ''tok''), cache_warm, [])
   \<and> srv_no_items (list_request ''tok'') ()
       = (Inr \<lparr>status = 200, statusText = ''OK'', json = Inr (JObj [(''mediaItems'', JArr [])])\<rparr>, ())
   \<and> fst (listMediaItems srv_no_items env_signed_in cache_warm ()) = Inr []
   \<and> srv_page (list_request ''tok'') ()
       = (Inr \<lparr>status = 200, statusText = ''OK'', json = Inr page_two_items\<rparr>, ())
   \<and> filter is_fetch (snd (snd (snd (listMediaItems srv_page env_signed_in cache_warm ())))) =
           [Fetch \<lparr>url = ''https://photoslibrary.googleapis.com/v1/mediaItems?pageSize=100'',
                   http_method = ''GET'', headers = json_headers ''tok'', body = None\<rparr>]
   \<and> fst (listMediaItems srv_page env_signed_in cache_warm ())
       = Inr [\<lparr>id_item = JStr ''a'', baseUrl = ''https://lh3.example/a=w1024-h1024'',
               filename = JStr ''a.jpg'', mimeType = JStr ''image/jpeg''\<rparr>,
              \<lparr>id_item = JStr ''b'', baseUrl = ''https://lh3.example/b=w1024-h1024'',
               filename = JUndefined, mimeType = JUndefined\<rparr>]"
proof -
  let ?empty = "\<lparr>status = 200, statusText = ''OK'', json = Inr (JObj [(''mediaItems'', JArr [])])\<rparr>"
  let ?page = "\<lparr>status = 200, statusText = ''OK'', json = Inr page_two_items\<rparr>"
  let ?objs = "[[(''id'', JStr ''a''), (''baseUrl'', JStr ''https://lh3.example/a''),
                 (''filename'', JStr ''a.jpg''), (''mimeType'', JStr ''image/jpeg'')],
                [(''id'', JStr ''b''), (''baseUrl'', JStr ''https://lh3.example/b'')]]"
  note h1 = getAccessToken_warm
  have e2: "srv_no_items (list_request ''tok'') () = (Inr ?empty, ())"
    by (simp add: srv_no_items_def)
  have e3: "200 \<le> status ?empty" "status ?empty \<le> 299"
    "json ?empty = Inr (JObj [(''mediaItems'', JArr [])])"
    by simp_all
  have e5: "get_prop (JObj [(''mediaItems'', JArr [])]) ''mediaItems'' = Inr (JArr [])"
    by simp
  have empty: "fst (listMediaItems srv_no_items env_signed_in cache_warm ()) = Inr []"
    using e5 list_single_page [where srv = srv_no_items, OF h1 e2 e3] by blast
  have p2: "srv_page (list_request ''tok'') () = (Inr ?page, ())"
    by (simp add: srv_page_def)
  have p3: "200 \<le> status ?page" "status ?page \<le> 299" "json ?page = Inr page_two_items"
    by simp_all
  note page = list_single_page [where srv = srv_page, OF h1 p2 p3]
  have shape: "page_two_items = JObj [(''mediaItems'', JArr (map JObj ?objs))]"
    "map_of [(''mediaItems'', JArr (map JObj ?objs))] ''mediaItems'' = Some (JArr (map JObj ?objs))"
    "\<forall>kvs \<in> set ?objs. \<exists>u. map_of kvs ''baseUrl'' = Some (JStr u)"
    by (simp_all add: page_two_items_def)
  from page have fetches:
    "filter is_fetch (snd (snd (snd (listMediaItems srv_page env_signed_in cache_warm ())))) =
           [Fetch \<lparr>url = ''https://photoslibrary.googleapis.com/v1/mediaItems?pageSize=100'',
                   http_method = ''GET'', headers = json_headers ''tok'', body = None\<rparr>]"
    by blast
  from page shape have "fst (listMediaItems srv_page env_signed_in cache_warm ()) =
                 Inr (map (\<lambda>kvs.
                        \<lparr>id_item = (case map_of kvs ''id'' of None \<Rightarrow> JUndefined | Some v \<Rightarrow> v),
                         baseUrl = (case map_of kvs ''baseUrl'' of Some (JStr u) \<Rightarrow> u | _ \<Rightarrow> [])
                                     @ ''=w1024-h1024'',
                         filename =
                           (case map_of kvs ''filename'' of None \<Rightarrow> JUndefined | Some v \<Rightarrow> v),
                         mimeType =
                           (case map_of kvs ''mimeType'' of None \<Rightarrow> JUndefined | Some v \<Rightarrow> v)\<rparr>)
                      ?objs)"
    by blast
  then have items: "fst (listMediaItems srv_page env_signed_in cache_warm ())
       = Inr [\<lparr>id_item = JStr ''a'', baseUrl = ''https://lh3.example/a=w1024-h1024'',
               filename = JStr ''a.jpg'', mimeType = JStr ''image/jpeg''\<rparr>,
              \<lparr>id_item = JStr ''b'', baseUrl = ''https://lh3.example/b=w1024-h1024'',
               filename = JUndefined, mimeType = JUndefined\<rparr>]"
    by simp
  show ?thesis
    using h1 e2 empty p2 fetches items by (intro conjI)
qed

text \<open>
  C8. Take two calls of \<^verbatim>\<open>favoriteMediaItem\<close>, or of \<^verbatim>\<open>archiveMediaItem\<close>, with the same
  id, each of which gets a token. Against the remote as the spec describes it, the first call
  succeeds and sets the one flag, and the second call, made on the remote state the first
  left, succeeds too and leaves that state as it is: calling twice gives the remote state of
  calling once. And for every remote whatever, if it answers the repeated request as it
  answered the first and leaves its state as it is, the second call has the outcome and the
  remote state of the first: the client keeps no record of the flag and sends the same
  request again.
\<close>

theorem mutation_idempotent:
  assumes "getAccessToken a1 c = (Inr (Some t1), c1, tr1)"
    and "getAccessToken a2 c1 = (Inr (Some t2), c2, tr2)"
  shows "favoriteMediaItem remote_batchModify a1 mediaItemId c r =
           (Inr (), c1, insert (mediaItemId, ''favorite'') r,
            tr1 @ [Fetch (favorite_request mediaItemId t1)])
       \<and> favoriteMediaItem remote_batchModify a2 mediaItemId c1
             (insert (mediaItemId, ''favorite'') r) =
           (Inr (), c2, insert (mediaItemId, ''favorite'') r,
            tr2 @ [Fetch (favorite_request mediaItemId t2)])
       \<and> archiveMediaItem remote_batchModify a1 mediaItemId c r =
           (Inr (), c1, insert (mediaItemId, ''archive'') r,
            tr1 @ [Fetch (archive_request mediaItemId t1)])
       \<and> archiveMediaItem remote_batchModify a2 mediaItemId c1
             (insert (mediaItemId, ''archive'') r) =
           (Inr (), c2, insert (mediaItemId, ''archive'') r,
            tr2 @ [Fetch (archive_request mediaItemId t2)])
       \<and> (\<forall>x s1. srv (favorite_request mediaItemId t1) s = (x, s1)
                  \<and> srv (favorite_request mediaItemId t2) s1 = (x, s1) \<longrightarrow>
             fst (favoriteMediaItem srv a2 mediaItemId c1 s1)
               = fst (favoriteMediaItem srv a1 mediaItemId c s)
           \<and> fst (snd (snd (favoriteMediaItem srv a2 mediaItemId c1 s1)))
               = fst (snd (snd (favoriteMediaItem srv a1 mediaItemId c s))))
       \<and> (\<forall>x s1. srv (archive_request mediaItemId t1) s = (x, s1)
                  \<and> srv (archive_request mediaItemId t2) s1 = (x, s1) \<longrightarrow>
             fst (archiveMediaItem srv a2 mediaItemId c1 s1)
               = fst (archiveMediaItem srv a1 mediaItemId c s)
           \<and> fst (snd (snd (archiveMediaItem srv a2 mediaItemId c1 s1)))
               = fst (snd (snd (archiveMediaItem srv a1 mediaItemId c s))))"
proof -
  have fav: "remote_batchModify (favorite_request mediaItemId t) s' =
      (Inr \<lparr>status = 200, statusText = ''OK'', json = Inr (JObj [])\<rparr>,
       insert (mediaItemId, ''favorite'') s')" for t s'
    by (simp add: remote_batchModify_def)
  have arc: "remote_batchModify (archive_request mediaItemId t) s' =
      (Inr \<lparr>status = 200, statusText = ''OK'', json = Inr (JObj [])\<rparr>,
       insert (mediaItemId, ''archive'') s')" for t s'
    by (simp add: remote_batchModify_def)
  have f1: "favoriteMediaItem remote_batchModify a1 mediaItemId c r =
           (Inr (), c1, insert (mediaItemId, ''favorite'') r,
            tr1 @ [Fetch (favorite_request mediaItemId t1)])"
    unfolding favoriteMediaItem_def
    by (rule action_run(3) [where srv = remote_batchModify
          and mk = "favorite_request mediaItemId" and t = t1, OF assms(1) fav]) simp
  have f2: "favoriteMediaItem remote_batchModify a2 mediaItemId c1
             (insert (mediaItemId, ''favorite'') r) =
           (Inr (), c2, insert (mediaItemId, ''favorite'') r,
            tr2 @ [Fetch (favorite_request mediaItemId t2)])"
    unfolding favoriteMediaItem_def
    using action_run(3) [where srv = remote_batchModify
        and mk = "favorite_request mediaItemId" and t = t2,
        OF assms(2) fav [of t2 "insert (mediaItemId, ''favorite'') r"]]
    by simp
  have a1: "archiveMediaItem remote_batchModify a1 mediaItemId c r =
           (Inr (), c1, insert (mediaItemId, ''archive'') r,
            tr1 @ [Fetch (archive_request mediaItemId t1)])"
    unfolding archiveMediaItem_def
    by (rule action_run(3) [where srv = remote_batchModify
          and mk = "archive_request mediaItemId" and t = t1, OF assms(1) arc]) simp
  have a2: "archiveMediaItem remote_batchModify a2 mediaItemId c1
             (insert (mediaItemId, ''archive'') r) =
           (Inr (), c2, insert (mediaItemId, ''archive'') r,
            tr2 @ [Fetch (archive_request mediaItemId t2)])"
    unfolding archiveMediaItem_def
    using action_run(3) [where srv = remote_batchModify
        and mk = "archive_request mediaItemId" and t = t2,
        OF assms(2) arc [of t2 "insert (mediaItemId, ''archive'') r"]]
    by simp
  have rep: "fst (action srv a2 mk label msg c1 s1) = fst (action srv a1 mk label msg c s)
           \<and> fst (snd (snd (action srv a2 mk label msg c1 s1)))
               = fst (snd (snd (action srv a1 mk label msg c s)))"
    if "srv (mk t1) s = (x, s1)" and "srv (mk t2) s1 = (x, s1)" for mk label msg x s1
    using action_run(1,2) [where srv = srv and mk = mk and t = t1, OF assms(1) that(1)]
      action_run(1,2) [where srv = srv and mk = mk and t = t2, OF assms(2) that(2)]
    by simp
  show ?thesis
    using f1 f2 a1 a2 rep
    unfolding favoriteMediaItem_def archiveMediaItem_def
    by (intro conjI allI impI) blast+
qed

theorem mutation_idempotent_witness:
  "getAccessToken env_signed_in cache_warm = (Inr (Some ''tok''), cache_warm, [])
   \<and> favoriteMediaItem remote_batchModify env_signed_in ''a'' cache_warm {}
       = (Inr (), cache_warm, {(''a'', ''favorite'')}, [Fetch (favorite_request ''a'' ''tok'')])
   \<and> favoriteMediaItem remote_batchModify env_signed_in ''a'' cache_warm {(''a'', ''favorite'')}
       = (Inr (), cache_warm, {(''a'', ''favorite'')}, [Fetch (favorite_request ''a'' ''tok'')])
   \<and> archiveMediaItem remote_batchModify env_signed_in ''a'' cache_warm {}
       = (Inr (), cache_warm, {(''a'', ''archive'')}, [Fetch (archive_request ''a'' ''tok'')])
   \<and> archiveMediaItem remote_batchModify env_signed_in ''a'' cache_warm {(''a'', ''archive'')}
       = (Inr (), cache_warm, {(''a'', ''archive'')}, [Fetch (archive_request ''a'' ''tok'')])"
proof -
  note h = getAccessToken_warm
  note run = mutation_idempotent [where srv = remote_batchModify and s = "{}", OF h h,
      of "''a''" "{}"]
  from run have
    "favoriteMediaItem remote_batchModify env_signed_in ''a'' cache_warm {}
       = (Inr (), cache_warm, insert (''a'', ''favorite'') {},
          [] @ [Fetch (favorite_request ''a'' ''tok'')])"
    and "favoriteMediaItem remote_batchModify env_signed_in ''a'' cache_warm
           (insert (''a'', ''favorite'') {})
       = (Inr (), cache_warm, insert (''a'', ''favorite'') {},
          [] @ [Fetch (favorite_request ''a'' ''tok'')])"
    and "archiveMediaItem remote_batchModify env_signed_in ''a'' cache_warm {}
       = (Inr (), cache_warm, insert (''a'', ''archive'') {},
          [] @ [Fetch (archive_request ''a'' ''tok'')])"
    and "archiveMediaItem remote_batchModify env_signed_in ''a'' cache_warm
           (insert (''a'', ''archive'') {})
       = (Inr (), cache_warm, insert (''a'', ''archive'') {},
          [] @ [Fetch (archive_request ''a'' ''tok'')])"
    by blast+
  with h show ?thesis by simp
qed

text \<open>
  C9, as stated, fails: the remote may have set the flag when the reply is lost; then
  \<^verbatim>\<open>favoriteMediaItem\<close> fails and the remote state has changed.
\<close>

theorem failed_favorite_changes_remote:
  "fst (favoriteMediaItem srv_lost_reply env_signed_in ''a'' cache_warm [])
     = Inl (Error ''Failed to favorite media item'')
   \<and> fst (snd (snd (favoriteMediaItem srv_lost_reply env_signed_in ''a'' cache_warm [])))
     = [(''a'', ''favorite'')]"
  by (simp add: favoriteMediaItem_def action_def action_try_def getAccessToken_warm
      srv_lost_reply_def requested_flags_def favorite_request_def)

text \<open>
  C9, amended. A call of \<^verbatim>\<open>favoriteMediaItem\<close> or \<^verbatim>\<open>archiveMediaItem\<close> makes no HTTP
  request or exactly one: the POST to \<^verbatim>\<open>/v1/mediaItems/{id}:batchModify\<close> whose body names
  the one given id, one field in \<^verbatim>\<open>updateMask\<close> and that field set to \<^verbatim>\<open>true\<close>. So for
  every remote that leaves its state as it was whenever a request does not end in a success
  response (the status is not 2xx, or \<^verbatim>\<open>fetch\<close> rejects), a failed call leaves the remote
  state as it was.
\<close>

theorem mutation_request_scope:
  "(filter is_fetch (snd (snd (snd (favoriteMediaItem srv a mediaItemId c r)))) = []
    \<or> (\<exists>t. filter is_fetch (snd (snd (snd (favoriteMediaItem srv a mediaItemId c r)))) =
          [Fetch \<lparr>url = ''https://photoslibrary.googleapis.com/v1/mediaItems/'' @ mediaItemId
                         @ '':batchModify'',
                  http_method = ''POST'', headers = json_headers t,
                  body = Some (JObj [(''mediaItemIds'', JArr [JStr mediaItemId]),
                                     (''updateMask'', JStr ''favorite''),
                                     (''favorite'', JBool True)])\<rparr>]))
   \<and> (filter is_fetch (snd (snd (snd (archiveMediaItem srv a mediaItemId c r)))) = []
    \<or> (\<exists>t. filter is_fetch (snd (snd (snd (archiveMediaItem srv a mediaItemId c r)))) =
          [Fetch \<lparr>url = ''https://photoslibrary.googleapis.com/v1/mediaItems/'' @ mediaItemId
                         @ '':batchModify'',
                  http_method = ''POST'', headers = json_headers t,
                  body = Some (JObj [(''mediaItemIds'', JArr [JStr mediaItemId]),
                                     (''updateMask'', JStr ''archive''),
                                     (''archive'', JBool True)])\<rparr>]))
   \<and> ((\<forall>q s x s'. srv q s = (x, s') \<and> (\<forall>resp. x = Inr resp \<longrightarrow> \<not> ok resp) \<longrightarrow> s' = s) \<longrightarrow>
        (\<forall>e. fst (favoriteMediaItem srv a mediaItemId c r) = Inl e \<longrightarrow>
             fst (snd (snd (favoriteMediaItem srv a mediaItemId c r))) = r)
      \<and> (\<forall>e. fst (archiveMediaItem srv a mediaItemId c r) = Inl e \<longrightarrow>
             fst (snd (snd (archiveMediaItem srv a mediaItemId c r))) = r))"
proof -
  have fav: "filter is_fetch (snd (snd (snd (favoriteMediaItem srv a mediaItemId c r)))) = []
    \<or> (\<exists>t. filter is_fetch (snd (snd (snd (favoriteMediaItem srv a mediaItemId c r)))) =
          [Fetch (favorite_request mediaItemId t)])"
    unfolding favoriteMediaItem_def by (rule action_fetches)
  have arc: "filter is_fetch (snd (snd (snd (archiveMediaItem srv a mediaItemId c r)))) = []
    \<or> (\<exists>t. filter is_fetch (snd (snd (snd (archiveMediaItem srv a mediaItemId c r)))) =
          [Fetch (archive_request mediaItemId t)])"
    unfolding archiveMediaItem_def by (rule action_fetches)
  have quiet: "fst (snd (snd (action srv a mk label msg c r))) = r"
    if "\<forall>q s x s'. srv q s = (x, s') \<and> (\<forall>resp. x = Inr resp \<longrightarrow> \<not> ok resp) \<longrightarrow> s' = s"
      and "fst (action srv a mk label msg c r) = Inl e" for mk label msg e
    using that by (intro action_failure_remote [where srv = srv and e = e]) blast+
  show ?thesis
    using fav arc quiet
    unfolding favoriteMediaItem_def archiveMediaItem_def
    by (simp add: favorite_request_def archive_request_def batchModify_url_def)
qed

theorem mutation_request_scope_witness:
  "fst (favoriteMediaItem srv_flags env_signed_in ''a'' cache_stale [(''b'', ''archive'')])
     = Inl (Error ''Failed to favorite media item'')
   \<and> fst (snd (snd (favoriteMediaItem srv_flags env_signed_in ''a'' cache_stale [(''b'', ''archive'')])))
     = [(''b'', ''archive'')]
   \<and> filter is_fetch (snd (snd (snd
        (favoriteMediaItem srv_flags env_signed_in ''a'' cache_stale [(''b'', ''archive'')])))) =
       [Fetch \<lparr>url = ''https://photoslibrary.googleapis.com/v1/mediaItems/a:batchModify'',
               http_method = ''POST'', headers = json_headers ''revoked'',
               body = Some (JObj [(''mediaItemIds'', JArr [JStr ''a'']),
                                  (''updateMask'', JStr ''favorite''),
                                  (''favorite'', JBool True)])\<rparr>]"
proof -
  have quiet: "\<forall>q s x s'. srv_flags q s = (x, s') \<and> (\<forall>resp. x = Inr resp \<longrightarrow> \<not> ok resp) \<longrightarrow> s' = s"
    by (auto simp: srv_flags_def ok_def split: if_splits)
  have tok: "getAccessToken env_signed_in cache_stale = (Inr (Some ''revoked''), cache_stale, [])"
    by (simp add: getAccessToken_def cache_valid_def env_signed_in_def cache_stale_def)
  have out: "favoriteMediaItem srv_flags env_signed_in ''a'' cache_stale [(''b'', ''archive'')] =
      (Inl (Error ''Failed to favorite media item''), cache_stale, [(''b'', ''archive'')],
       [Fetch (favorite_request ''a'' ''revoked''), ReadJson,
        ConsoleError ''Google Photos API Error:'' (LogVal (JObj [])),
        ConsoleError ''Error favoriting media item:''
          (LogExn (Error ''Failed to favorite media item''))])"
    by (simp add: favoriteMediaItem_def action_def action_try_def tok srv_flags_def
        favorite_request_def json_headers_def ok_def error_data_def)
  have fail: "fst (favoriteMediaItem srv_flags env_signed_in ''a'' cache_stale [(''b'', ''archive'')])
     = Inl (Error ''Failed to favorite media item'')"
    by (simp add: out)
  from quiet fail
    mutation_request_scope [where srv = srv_flags and a = env_signed_in and mediaItemId = "''a''"
      and c = cache_stale and r = "[(''b'', ''archive'')]"]
  have "fst (snd (snd (favoriteMediaItem srv_flags env_signed_in ''a'' cache_stale [(''b'', ''archive'')])))
     = [(''b'', ''archive'')]"
    by blast
  with fail show ?thesis
    by (simp add: out favorite_request_def batchModify_url_def)
qed

text \<open>
  C10. When \<^verbatim>\<open>listMediaItems\<close> succeeds on a response whose \<^verbatim>\<open>mediaItems\<close> is an
  array, the result has as many items as the array, in the same order, and the item at each
  position has the \<^verbatim>\<open>id\<close>, \<^verbatim>\<open>filename\<close> and \<^verbatim>\<open>mimeType\<close> of the response item at
  that position as they are, and for \<^verbatim>\<open>baseUrl\<close> the text of the response item's
  \<^verbatim>\<open>baseUrl\<close> followed by \<^verbatim>\<open>=w1024-h1024\<close>.
\<close>

theorem list_preserves_order_and_fields:
  assumes "getAccessToken a c = (Inr (Some t), c1, tr)"
    and "srv (list_request t) r = (Inr resp, r1)"
    and "json resp = Inr data"
    and "get_prop data ''mediaItems'' = Inr (JArr items)"
    and "fst (listMediaItems srv a c r) = Inr ms"
  shows "length ms = length items
       \<and> (\<forall>i < length items.
             get_prop (items ! i) ''id'' = Inr (id_item (ms ! i))
           \<and> get_prop (items ! i) ''filename'' = Inr (filename (ms ! i))
           \<and> get_prop (items ! i) ''mimeType'' = Inr (mimeType (ms ! i))
           \<and> (\<exists>b s. get_prop (items ! i) ''baseUrl'' = Inr b \<and> to_string b = Inr s
                  \<and> baseUrl (ms ! i) = s @ ''=w1024-h1024'')
           \<and> (\<forall>u. get_prop (items ! i) ''baseUrl'' = Inr (JStr u) \<longrightarrow>
                  baseUrl (ms ! i) = u @ ''=w1024-h1024''))"
proof -
  from listMediaItems_success [where srv = srv, OF assms(1,2,5)] assms(3)
  have "read_items data = Inr ms" by simp
  with read_items_array [OF assms(4)] have items: "map_items items = Inr ms" by simp
  have each: "get_prop (items ! i) ''id'' = Inr (id_item (ms ! i))
           \<and> get_prop (items ! i) ''filename'' = Inr (filename (ms ! i))
           \<and> get_prop (items ! i) ''mimeType'' = Inr (mimeType (ms ! i))
           \<and> (\<exists>b s. get_prop (items ! i) ''baseUrl'' = Inr b \<and> to_string b = Inr s
                  \<and> baseUrl (ms ! i) = s @ ''=w1024-h1024'')
           \<and> (\<forall>u. get_prop (items ! i) ''baseUrl'' = Inr (JStr u) \<longrightarrow>
                  baseUrl (ms ! i) = u @ ''=w1024-h1024'')" if "i < length items" for i
    using to_media_item_fields [OF map_items_nth [OF items that]] by auto
  show ?thesis
    using map_items_length [OF items] each by blast
qed

theorem list_preserves_order_and_fields_witness:
  "getAccessToken env_signed_in cache_warm = (Inr (Some ''tok''), cache_warm, [])
   \<and> srv_page (list_request ''tok'') ()
       = (Inr \<lparr>status = 200, statusText = ''OK'', json = Inr page_two_items\<rparr>, ())
   \<and> fst (listMediaItems srv_page env_signed_in cache_warm ())
       = Inr [\<lparr>id_item = JStr ''a'', baseUrl = ''https://lh3.example/a=w1024-h1024'',
               filename = JStr ''a.jpg'', mimeType = JStr ''image/jpeg''\<rparr>,
              \<lparr>id_item = JStr ''b'', baseUrl = ''https://lh3.example/b=w1024-h1024'',
               filename = JUndefined, mimeType = JUndefined\<rparr>]"
proof -
  let ?items = "[JObj [(''id'', JStr ''a''), (''baseUrl'', JStr ''https://lh3.example/a''),
                        (''filename'', JStr ''a.jpg''), (''mimeType'', JStr ''image/jpeg'')],
                  JObj [(''id'', JStr ''b''), (''baseUrl'', JStr ''https://lh3.example/b'')]]"
  let ?ms = "[\<lparr>id_item = JStr ''a'', baseUrl = ''https://lh3.example/a=w1024-h1024'',
               filename = JStr ''a.jpg'', mimeType = JStr ''image/jpeg''\<rparr>,
              \<lparr>id_item = JStr ''b'', baseUrl = ''https://lh3.example/b=w1024-h1024'',
               filename = JUndefined, mimeType = JUndefined\<rparr>]"
  note h1 = getAccessToken_warm
  have h2: "srv_page (list_request ''tok'') ()
       = (Inr \<lparr>status = 200, statusText = ''OK'', json = Inr page_two_items\<rparr>, ())"
    by (simp add: srv_page_def)
  have h3: "json \<lparr>status = 200, statusText = ''OK'', json = Inr page_two_items\<rparr> = Inr page_two_items"
    by simp
  have h4: "get_prop page_two_items ''mediaItems'' = Inr (JArr ?items)"
    by (simp add: page_two_items_def)
  have h5: "fst (listMediaItems srv_page env_signed_in cache_warm ()) = Inr ?ms"
    by (simp add: listMediaItems_def list_try_def h1 srv_page_def ok_def read_items_def
        page_two_items_def to_media_item_def)
  show ?thesis
    using h1 h2 h5 list_preserves_order_and_fields [where srv = srv_page, OF h1 h2 h3 h4 h5]
    by simp
qed

end
